theory Spec2Isabelle
  imports Main "HOL-Library.Sublist"
begin

section \<open>Python strings\<close>

text \<open>
  A Python \<open>str\<close> is a sequence of Unicode code points and \<open>len\<close> counts code points,
  so a string is modelled as a list of code-point numbers. The literals of the two source
  files are ASCII apart from the German letters a-umlaut (228), o-umlaut (246),
  u-umlaut (252), their capitals (196, 214, 220) and sharp s (223); both files are in
  composed form (NFC), so each of these letters is one code point.
\<close>

type_synonym ustr = "nat list"

definition ascii :: "string \<Rightarrow> ustr" where
  "ascii s = map of_char s"

text \<open>\<open>sub in s\<close> on strings: \<open>sub\<close> occurs in \<open>s\<close> as a contiguous block.\<close>

fun startswith :: "ustr \<Rightarrow> ustr \<Rightarrow> bool" where
  "startswith s [] = True"
| "startswith [] (p # ps) = False"
| "startswith (c # cs) (p # ps) = (c = p \<and> startswith cs ps)"

fun py_in :: "ustr \<Rightarrow> ustr \<Rightarrow> bool" where
  "py_in sub [] = (sub = [])"
| "py_in sub (c # cs) = (startswith (c # cs) sub \<or> py_in sub cs)"

text \<open>
  \<open>str.isspace\<close> of one character: the code points of bidirectional class WS, B or S
  and of category Zs, which is the set \<open>str.strip()\<close> removes.
\<close>

definition py_isspace :: "nat \<Rightarrow> bool" where
  "py_isspace c =
     ((9 \<le> c \<and> c \<le> 13) \<or> (28 \<le> c \<and> c \<le> 32) \<or> c = 133 \<or> c = 160 \<or> c = 5760
      \<or> (8192 \<le> c \<and> c \<le> 8202) \<or> c = 8232 \<or> c = 8233 \<or> c = 8239 \<or> c = 8287
      \<or> c = 12288)"

definition py_strip :: "ustr \<Rightarrow> ustr" where
  "py_strip s = rev (dropWhile py_isspace (rev (dropWhile py_isspace s)))"

text \<open>\<open>sep.join(parts)\<close>.\<close>

fun py_join :: "ustr \<Rightarrow> ustr list \<Rightarrow> ustr" where
  "py_join sep [] = []"
| "py_join sep [p] = p"
| "py_join sep (p # q # ps) = p @ sep @ py_join sep (q # ps)"

section \<open>Input validation\<close>

text \<open>
  The character class of the pattern in \<open>is_valid_input\<close>: \<open>a-z\<close>, \<open>A-Z\<close>, the three
  umlauts in both cases and sharp s.
\<close>

definition alpha_class :: "nat \<Rightarrow> bool" where
  "alpha_class c =
     ((97 \<le> c \<and> c \<le> 122) \<or> (65 \<le> c \<and> c \<le> 90)
      \<or> c = 228 \<or> c = 246 \<or> c = 252 \<or> c = 196 \<or> c = 214 \<or> c = 220 \<or> c = 223)"

text \<open>
  \<open>re.search(r'[...]{3,}', text)\<close> tries a match at every start position, left to right;
  at one position the greedy \<open>{3,}\<close> takes the longest run of class characters and
  succeeds when it has at least three. \<open>bool()\<close> of the result is whether some position
  matched.
\<close>

fun re_search_alpha3 :: "ustr \<Rightarrow> bool" where
  "re_search_alpha3 [] = False"
| "re_search_alpha3 (c # cs) =
     (3 \<le> length (takeWhile alpha_class (c # cs)) \<or> re_search_alpha3 cs)"

definition api_is_valid_input :: "ustr \<Rightarrow> bool" where
  "api_is_valid_input text = (10 \<le> length text \<and> re_search_alpha3 text)"

definition app_is_valid_input :: "ustr \<Rightarrow> bool" where
  "app_is_valid_input text = (10 \<le> length text \<and> re_search_alpha3 text)"

text \<open>
  The validity predicate in the words of the specification: some block of at least three
  consecutive characters of the text consists of letters only.
\<close>

definition has_alpha_run :: "ustr \<Rightarrow> bool" where
  "has_alpha_run text =
     (\<exists>pre run post. text = pre @ run @ post \<and> 3 \<le> length run \<and> list_all alpha_class run)"

definition teamfaehigkeit :: ustr where
  "teamfaehigkeit = ascii ''Teamf'' @ [228] @ ascii ''higkeit''"

section \<open>External collaborators\<close>

text \<open>
  A token of the tagger's output: surface form, coarse part-of-speech tag and stop-word
  flag (the attributes \<open>text\<close>, \<open>pos_\<close> and \<open>is_stop\<close>).
\<close>

record token =
  tok_text :: ustr
  pos :: string
  is_stop :: bool

text \<open>
  The outcome of a library call that may raise: \<open>Raises m\<close> is an exception \<open>e\<close> with
  \<open>str(e) = m\<close>.
\<close>

datatype 'a attempt = Raises ustr | Returns 'a

text \<open>
  The process-wide dependencies of both entry points: \<open>str.lower\<close> (the Unicode case
  mapping, taken as given), the tagger \<open>nlp\<close>, and the generation service, called with
  the system instruction and the prompt (model, token limit and temperature are constants
  of the call). The service answers with the message content or raises. The tagger
  refuses some texts (one longer than its length limit) with an exception:
  \<open>nlp_raises E text\<close> is the message of that exception, and \<open>None\<close> when the tagger
  answers; \<open>nlp E text\<close> is its answer then.
\<close>

record env =
  str_lower :: "ustr \<Rightarrow> ustr"
  nlp :: "ustr \<Rightarrow> token list"
  nlp_raises :: "ustr \<Rightarrow> ustr option"
  chat_create :: "ustr \<Rightarrow> ustr \<Rightarrow> ustr attempt"

text \<open>The calls a request makes to the tagger pipeline and to the generation service.\<close>

datatype event = Extract_keywords ustr | Chat_create ustr ustr

section \<open>Keyword extraction\<close>

text \<open>
  \<open>Counter(keywords)\<close>: a dictionary in insertion order, so an association list in
  order of first occurrence. Counting an element bumps its entry in place or appends a
  new entry at the end.
\<close>

fun count_element :: "(ustr \<times> nat) list \<Rightarrow> ustr \<Rightarrow> (ustr \<times> nat) list" where
  "count_element [] w = [(w, 1)]"
| "count_element ((k, n) # m) w =
     (if k = w then (k, n + 1) # m else (k, n) # count_element m w)"

definition Counter :: "ustr list \<Rightarrow> (ustr \<times> nat) list" where
  "Counter ws = foldl count_element [] ws"

text \<open>
  \<open>most_common(n)\<close> is \<open>heapq.nlargest(n, items, key=count)\<close>: nothing for \<open>n \<le> 0\<close>,
  otherwise the first \<open>n\<close> items of the stable sort by descending count (items of equal
  count stay in dictionary order).
\<close>

definition most_common :: "int \<Rightarrow> (ustr \<times> nat) list \<Rightarrow> (ustr \<times> nat) list" where
  "most_common n c =
     (if n \<le> 0 then [] else take (nat n) (sort_key (\<lambda>(w, k). - int k) c))"

text \<open>The slice \<open>xs[:k]\<close>; a negative \<open>k\<close> counts from the end.\<close>

definition slice_to :: "'a list \<Rightarrow> int \<Rightarrow> 'a list" where
  "slice_to xs k =
     (if k < 0 then take (nat (int (length xs) + k)) xs else take (nat k) xs)"

definition api_blacklisted_terms :: "ustr list" where
  "api_blacklisted_terms =
     [ascii ''daten'', ascii ''pers'' @ [246] @ ascii ''nliche'', ascii ''nachname'',
      ascii ''geburtsort'', ascii ''geburtstag'', ascii ''adresse'', ascii ''telefon'',
      ascii ''email'', ascii ''e-mail'', ascii ''stra'' @ [223] @ ascii ''e'',
      ascii ''postleitzahl'']"

definition api_priority_terms :: "ustr list" where
  "api_priority_terms =
     [ascii ''verm'' @ [246] @ ascii ''gensberatung'', ascii ''kundenberatung'',
      ascii ''finanzwesen'', ascii ''bankkauffrau'', ascii ''bankkaufmann'',
      ascii ''kundenmanagement'', ascii ''finanzprodukte'']"

definition api_extract_keywords :: "env \<Rightarrow> ustr \<Rightarrow> ustr list" where
  "api_extract_keywords E text =
     (let doc = nlp E text;
          keywords = map (\<lambda>t. str_lower E (tok_text t))
            (filter (\<lambda>t. pos t \<in> set [''NOUN'', ''ADJ'', ''VERB'']
                         \<and> 3 < length (tok_text t)
                         \<and> \<not> is_stop t
                         \<and> str_lower E (tok_text t) \<notin> set api_blacklisted_terms) doc);
          keyword_counts = Counter keywords;
          prioritized = filter (\<lambda>word. word \<in> set keywords) api_priority_terms;
          other_keywords =
            map fst (most_common (5 - int (length prioritized)) keyword_counts)
      in prioritized @ slice_to other_keywords (5 - int (length prioritized)))"

text \<open>
  \<open>api_extract_keywords\<close> is the list the function returns on the tagger's answer. A
  call of \<open>extract_keywords(text)\<close> has nothing around \<open>nlp(text)\<close>, so it raises what
  the tagger raises and returns that list otherwise.
\<close>

definition api_extract_keywords_call :: "env \<Rightarrow> ustr \<Rightarrow> ustr list attempt" where
  "api_extract_keywords_call E text =
     (case nlp_raises E text of
        Some e \<Rightarrow> Raises e
      | None \<Rightarrow> Returns (api_extract_keywords E text))"

text \<open>The interactive form (\<open>app.py\<close>) has its own copy of the lists and of the function.\<close>

definition app_blacklisted_terms :: "ustr list" where
  "app_blacklisted_terms =
     [ascii ''daten'', ascii ''pers'' @ [246] @ ascii ''nliche'', ascii ''nachname'',
      ascii ''geburtsort'', ascii ''geburtstag'', ascii ''adresse'', ascii ''telefon'',
      ascii ''email'', ascii ''e-mail'', ascii ''stra'' @ [223] @ ascii ''e'',
      ascii ''postleitzahl'']"

definition app_priority_terms :: "ustr list" where
  "app_priority_terms =
     [ascii ''verm'' @ [246] @ ascii ''gensberatung'', ascii ''kundenberatung'',
      ascii ''finanzwesen'', ascii ''bankkauffrau'', ascii ''bankkaufmann'',
      ascii ''kundenmanagement'', ascii ''finanzprodukte'']"

definition app_extract_keywords :: "env \<Rightarrow> ustr \<Rightarrow> ustr list" where
  "app_extract_keywords E text =
     (let doc = nlp E text;
          keywords = map (\<lambda>t. str_lower E (tok_text t))
            (filter (\<lambda>t. pos t \<in> set [''NOUN'', ''ADJ'', ''VERB'']
                         \<and> 3 < length (tok_text t)
                         \<and> \<not> is_stop t
                         \<and> str_lower E (tok_text t) \<notin> set app_blacklisted_terms) doc);
          keyword_counts = Counter keywords;
          prioritized = filter (\<lambda>word. word \<in> set keywords) app_priority_terms;
          other_keywords =
            map fst (most_common (5 - int (length prioritized)) keyword_counts)
      in prioritized @ slice_to other_keywords (5 - int (length prioritized)))"

definition app_extract_keywords_call :: "env \<Rightarrow> ustr \<Rightarrow> ustr list attempt" where
  "app_extract_keywords_call E text =
     (case nlp_raises E text of
        Some e \<Rightarrow> Raises e
      | None \<Rightarrow> Returns (app_extract_keywords E text))"

text \<open>
  The keyword list in the words of the specification. The candidates are the lowercased
  surface forms of the tokens that pass the filter; the priority part is the priority
  list restricted to the candidates; the fill is the top \<open>5 - p\<close> distinct candidates
  by descending frequency, candidates of equal frequency in order of first occurrence,
  with no term excluded from the pool.
\<close>

definition candidates :: "env \<Rightarrow> ustr \<Rightarrow> ustr list" where
  "candidates E text =
     map (\<lambda>t. str_lower E (tok_text t))
       (filter (\<lambda>t. (pos t = ''NOUN'' \<or> pos t = ''ADJ'' \<or> pos t = ''VERB'')
                    \<and> 3 < length (tok_text t) \<and> \<not> is_stop t
                    \<and> str_lower E (tok_text t) \<notin> set api_blacklisted_terms)
          (nlp E text))"

fun first_occurrences :: "'a list \<Rightarrow> 'a list" where
  "first_occurrences [] = []"
| "first_occurrences (x # xs) = x # first_occurrences (filter (\<lambda>y. y \<noteq> x) xs)"

definition frequency_ranking :: "ustr list \<Rightarrow> ustr list" where
  "frequency_ranking ws =
     sort_key (\<lambda>w. - int (count_list ws w)) (first_occurrences ws)"

definition priority_part :: "ustr list \<Rightarrow> ustr list" where
  "priority_part ws = filter (\<lambda>w. w \<in> set ws) api_priority_terms"

definition spec_keywords :: "env \<Rightarrow> ustr \<Rightarrow> ustr list" where
  "spec_keywords E text =
     (let ws = candidates E text; p = length (priority_part ws)
      in priority_part ws @ take (5 - p) (frequency_ranking ws))"

section \<open>Text extraction\<close>

text \<open>
  An uploaded file, as far as the program looks at it: the declared media type, what the
  PDF library makes of the bytes (opening may raise; so may the text extraction of a
  page, which otherwise gives a string or \<open>None\<close>) and what the DOCX library makes of
  them (opening may raise, otherwise the paragraph texts).
\<close>

record upload =
  mimetype :: ustr
  pdf_view :: "ustr option attempt list attempt"
  docx_view :: "ustr list attempt"

text \<open>
  \<open>"".join(page.extract_text() or "" for page in pdf.pages)\<close>: pages are read in order
  and the first exception ends the join.
\<close>

fun join_pages :: "ustr option attempt list \<Rightarrow> ustr attempt" where
  "join_pages [] = Returns []"
| "join_pages (Raises e # ps) = Raises e"
| "join_pages (Returns t # ps) =
     (case join_pages ps of
        Raises e \<Rightarrow> Raises e
      | Returns r \<Rightarrow> Returns ((case t of None \<Rightarrow> [] | Some s \<Rightarrow> s) @ r))"

text \<open>The text computed inside the \<open>try\<close> block, or the exception that leaves it.\<close>

definition pdf_text :: "upload \<Rightarrow> ustr attempt" where
  "pdf_text file =
     (case pdf_view file of Raises e \<Rightarrow> Raises e | Returns pages \<Rightarrow> join_pages pages)"

definition docx_text :: "upload \<Rightarrow> ustr attempt" where
  "docx_text file =
     (case docx_view file of Raises e \<Rightarrow> Raises e | Returns paragraphs \<Rightarrow> Returns (concat paragraphs))"

definition no_text_pdf :: ustr where
  "no_text_pdf = ascii ''Fehler: Kein extrahierbarer Text in der PDF-Datei.''"

definition no_text_docx :: ustr where
  "no_text_docx = ascii ''Fehler: Kein extrahierbarer Text in der DOCX-Datei.''"

definition read_error_pdf :: ustr where
  "read_error_pdf = ascii ''Fehler beim Lesen der PDF: ''"

definition read_error_docx :: ustr where
  "read_error_docx = ascii ''Fehler beim Lesen der DOCX: ''"

text \<open>
  The extractors of the programmatic entry point (\<open>api.py\<close>). Logging is left out; it
  does not change the result. The \<open>except Exception\<close> clause turns every exception of
  the block into a returned message.
\<close>

definition api_extract_text_from_pdf :: "upload \<Rightarrow> ustr" where
  "api_extract_text_from_pdf file =
     (case pdf_text file of
        Returns text \<Rightarrow> if py_strip text = [] then no_text_pdf else text
      | Raises e \<Rightarrow> read_error_pdf @ e)"

definition api_extract_text_from_docx :: "upload \<Rightarrow> ustr" where
  "api_extract_text_from_docx file =
     (case docx_text file of
        Returns text \<Rightarrow> if py_strip text = [] then no_text_docx else text
      | Raises e \<Rightarrow> read_error_docx @ e)"

text \<open>The extractors of the interactive form (\<open>app.py\<close>) return the joined text as it is.\<close>

definition app_extract_text_from_pdf :: "upload \<Rightarrow> ustr" where
  "app_extract_text_from_pdf file =
     (case pdf_text file of
        Returns text \<Rightarrow> text
      | Raises e \<Rightarrow> read_error_pdf @ e)"

definition app_extract_text_from_docx :: "upload \<Rightarrow> ustr" where
  "app_extract_text_from_docx file =
     (case docx_text file of
        Returns text \<Rightarrow> text
      | Raises e \<Rightarrow> read_error_docx @ e)"

section \<open>Letter composition\<close>

definition fill_all_fields :: ustr where
  "fill_all_fields =
     ascii ''Fehler: Alle Felder m'' @ [252] @ ascii ''ssen ausgef'' @ [252] @ ascii ''llt sein.''"

definition meaningful_inputs :: ustr where
  "meaningful_inputs =
     ascii ''Fehler: St'' @ [228] @ ascii ''rken und Schw'' @ [228] @ ascii ''chen m'' @ [252]
     @ ascii ''ssen sinnvolle Eingaben sein.''"

definition request_error :: ustr where
  "request_error = ascii ''Fehler bei der API-Anfrage: ''"

definition system_content :: ustr where
  "system_content = ascii ''Du bist ein professioneller Bewerbungsassistent.''"

text \<open>The fixed pieces of the prompt template, between the interpolated fields.\<close>

definition prompt_at :: ustr where
  "prompt_at = ascii '', der/die sich bei ''"

definition prompt_cv :: ustr where
  "prompt_cv =
     ascii '' auf eine Position als Bankkauffrau/-mann bewirbt. Verwende die folgenden Informationen:''
     @ [10, 10] @ ascii ''    **Lebenslauf (Auszug)**: ''"

definition prompt_cv_keywords :: ustr where
  "prompt_cv_keywords =
     [10] @ ascii ''    **Wichtige Schl'' @ [252] @ ascii ''sselw'' @ [246]
     @ ascii ''rter aus dem Lebenslauf**: ''"

definition prompt_job :: ustr where
  "prompt_job = [10] @ ascii ''    **Stellenprofil (Auszug)**: ''"

definition prompt_job_keywords :: ustr where
  "prompt_job_keywords =
     [10] @ ascii ''    **Wichtige Schl'' @ [252] @ ascii ''sselw'' @ [246]
     @ ascii ''rter aus dem Stellenprofil**: ''"

definition prompt_strengths :: ustr where
  "prompt_strengths = [10] @ ascii ''    **St'' @ [228] @ ascii ''rken**: ''"

definition prompt_weaknesses :: ustr where
  "prompt_weaknesses = [10] @ ascii ''    **Schw'' @ [228] @ ascii ''chen**: ''"

definition prompt_rules :: ustr where
  "prompt_rules =
     [10, 10] @ ascii ''    Das Schreiben soll:'' @ [10] @ ascii ''    - H'' @ [246]
     @ ascii ''flich und professionell sein.'' @ [10]
     @ ascii ''    - Die Qualifikationen des Bewerbers mit den Anforderungen der Stelle verkn''
     @ [252] @ ascii ''pfen.'' @ [10] @ ascii ''    - St'' @ [228]
     @ ascii ''rken hervorheben und Schw'' @ [228] @ ascii ''chen positiv darstellen.'' @ [10]
     @ ascii ''    - Maximal 400 W'' @ [246] @ ascii ''rter lang sein.'' @ [10]
     @ ascii ''    - Mit einer h'' @ [246] @ ascii ''flichen Schlussformel enden.'' @ [10]
     @ ascii ''    ''"

text \<open>The opening of the prompt up to the company name, in each entry point.\<close>

definition api_prompt_head :: "env \<Rightarrow> ustr \<Rightarrow> ustr \<Rightarrow> ustr \<Rightarrow> ustr" where
  "api_prompt_head E tone name company =
     [10] @ ascii ''    Erstelle ein '' @ str_lower E tone
     @ ascii ''es Motivationsschreiben auf Deutsch f'' @ [252] @ ascii ''r '' @ name
     @ prompt_at @ company"

definition app_prompt_head :: "ustr \<Rightarrow> ustr \<Rightarrow> ustr" where
  "app_prompt_head name company =
     [10] @ ascii ''    Erstelle ein professionelles, fl'' @ [252]
     @ ascii ''ssiges und individuelles Motivationsschreiben auf Deutsch f'' @ [252]
     @ ascii ''r '' @ name @ prompt_at @ company"

text \<open>
  The result of a handler together with the external calls it made, in order. Each call
  of \<open>extract_keywords\<close> is recorded where the source makes it.
\<close>

type_synonym 'a traced = "'a \<times> event list"

text \<open>
  \<open>generate_cover_letter\<close> of \<open>api.py\<close>. \<open>all([...])\<close> is truthiness of every field:
  a string is true when it is not empty. The two calls of \<open>extract_keywords\<close> stand
  before the \<open>try\<close> block, so an exception of the tagger leaves the function; inside
  the block the service call is the only statement that can raise, and its exception is
  returned as a message.
\<close>

definition api_generate_cover_letter ::
  "env \<Rightarrow> ustr \<Rightarrow> ustr \<Rightarrow> ustr \<Rightarrow> ustr \<Rightarrow> ustr \<Rightarrow> ustr \<Rightarrow> ustr \<Rightarrow> ustr attempt traced" where
  "api_generate_cover_letter E cv_text job_text strengths weaknesses name company tone =
     (if \<not> list_all (\<lambda>s. s \<noteq> []) [cv_text, job_text, strengths, weaknesses, name, company]
      then (Returns fill_all_fields, [])
      else if \<not> api_is_valid_input strengths \<or> \<not> api_is_valid_input weaknesses
      then (Returns meaningful_inputs, [])
      else
        (case api_extract_keywords_call E cv_text of
           Raises e \<Rightarrow> (Raises e, [Extract_keywords cv_text])
         | Returns cv_keywords \<Rightarrow>
        (case api_extract_keywords_call E job_text of
           Raises e \<Rightarrow> (Raises e, [Extract_keywords cv_text, Extract_keywords job_text])
         | Returns job_keywords \<Rightarrow>
             let prompt =
                   api_prompt_head E tone name company
                   @ prompt_cv @ take 1000 cv_text
                   @ prompt_cv_keywords @ py_join (ascii '', '') cv_keywords
                   @ prompt_job @ take 1000 job_text
                   @ prompt_job_keywords @ py_join (ascii '', '') job_keywords
                   @ prompt_strengths @ strengths
                   @ prompt_weaknesses @ weaknesses
                   @ prompt_rules
             in (Returns
                   (case chat_create E system_content prompt of
                      Returns content \<Rightarrow> py_strip content
                    | Raises e \<Rightarrow> request_error @ e),
                 [Extract_keywords cv_text, Extract_keywords job_text,
                  Chat_create system_content prompt]))))"

text \<open>\<open>generate_cover_letter\<close> of \<open>app.py\<close> has no tone and checks nothing itself.\<close>

definition app_generate_cover_letter ::
  "env \<Rightarrow> ustr \<Rightarrow> ustr \<Rightarrow> ustr \<Rightarrow> ustr \<Rightarrow> ustr \<Rightarrow> ustr \<Rightarrow> ustr attempt traced" where
  "app_generate_cover_letter E cv_text job_text strengths weaknesses name company =
     (case app_extract_keywords_call E cv_text of
        Raises e \<Rightarrow> (Raises e, [Extract_keywords cv_text])
      | Returns cv_keywords \<Rightarrow>
     (case app_extract_keywords_call E job_text of
        Raises e \<Rightarrow> (Raises e, [Extract_keywords cv_text, Extract_keywords job_text])
      | Returns job_keywords \<Rightarrow>
          let prompt =
                app_prompt_head name company
                @ prompt_cv @ take 1000 cv_text
                @ prompt_cv_keywords @ py_join (ascii '', '') cv_keywords
                @ prompt_job @ take 1000 job_text
                @ prompt_job_keywords @ py_join (ascii '', '') job_keywords
                @ prompt_strengths @ strengths
                @ prompt_weaknesses @ weaknesses
                @ prompt_rules
          in (Returns
                (case chat_create E system_content prompt of
                   Returns content \<Rightarrow> py_strip content
                 | Raises e \<Rightarrow> request_error @ e),
              [Extract_keywords cv_text, Extract_keywords job_text,
               Chat_create system_content prompt])))"

text \<open>
  The body of the prompt in the words of the specification: behind the opening sentence,
  the first \<open>min(1000, length)\<close> characters of each text, each keyword list with a comma
  and a space between neighbours, and the strengths and weaknesses as they are, each
  behind its label.
\<close>

definition comma_joined :: "ustr list \<Rightarrow> ustr" where
  "comma_joined ks =
     (if ks = [] then [] else concat (map (\<lambda>k. k @ [44, 32]) (butlast ks)) @ last ks)"

definition prompt_body :: "ustr \<Rightarrow> ustr list \<Rightarrow> ustr \<Rightarrow> ustr list \<Rightarrow> ustr \<Rightarrow> ustr \<Rightarrow> ustr" where
  "prompt_body cv_text cv_keywords job_text job_keywords strengths weaknesses =
     prompt_cv @ take (min 1000 (length cv_text)) cv_text
     @ prompt_cv_keywords @ comma_joined cv_keywords
     @ prompt_job @ take (min 1000 (length job_text)) job_text
     @ prompt_job_keywords @ comma_joined job_keywords
     @ prompt_strengths @ strengths
     @ prompt_weaknesses @ weaknesses
     @ prompt_rules"

section \<open>The endpoint \<open>/generate_cover_letter\<close>\<close>

text \<open>
  A request: the two uploads and the form fields, each absent or present. An upload that
  is absent or has no file name is false in the \<open>if not cv_file\<close> test and is \<open>None\<close>
  here; \<open>tone\<close> falls back to its default.
\<close>

record request =
  cv_file :: "upload option"
  job_file :: "upload option"
  strengths_field :: "ustr option"
  weaknesses_field :: "ustr option"
  name_field :: "ustr option"
  company_field :: "ustr option"
  tone_field :: "ustr option"

text \<open>A JSON response: an error object with its status, or the letter with status 200.\<close>

datatype response =
  Json_error nat ustr
| Json_letter ustr "ustr list" "ustr list"

definition pdf_mime :: ustr where
  "pdf_mime = ascii ''application/pdf''"

definition docx_mime :: ustr where
  "docx_mime =
     ascii ''application/vnd.openxmlformats-officedocument.wordprocessingml.document''"

definition fehler :: ustr where
  "fehler = ascii ''Fehler''"

definition cv_failed :: ustr where
  "cv_failed = ascii ''Fehler beim Verarbeiten des Lebenslaufs: ''"

definition job_failed :: ustr where
  "job_failed = ascii ''Fehler beim Verarbeiten des Stellenprofils: ''"

text \<open>Truthiness of a form field: present and not empty.\<close>

definition truthy :: "ustr option \<Rightarrow> bool" where
  "truthy f = (case f of None \<Rightarrow> False | Some s \<Rightarrow> s \<noteq> [])"

text \<open>
  The handler of \<open>api.py\<close>, check by check in the order of the source. \<open>is_valid_input\<close>
  is only reached with fields that passed the truthiness test, so the field is a string
  there. The handler's last clause answers any exception with status 500 and its
  message; the extractors return their failures as text, so only a call of
  \<open>extract_keywords\<close> (in the composer or for the response) can raise.
\<close>

definition api_generate_cover_letter_endpoint :: "env \<Rightarrow> request \<Rightarrow> response traced" where
  "api_generate_cover_letter_endpoint E req =
     (case cv_file req of
        None \<Rightarrow> (Json_error 400 (ascii ''Bitte laden Sie einen Lebenslauf hoch.''), [])
      | Some cv \<Rightarrow>
     (case job_file req of
        None \<Rightarrow> (Json_error 400 (ascii ''Bitte laden Sie ein Stellenprofil hoch.''), [])
      | Some job \<Rightarrow>
        if mimetype cv \<noteq> pdf_mime \<and> mimetype cv \<noteq> docx_mime
        then (Json_error 400
                (ascii ''Ung'' @ [252] @ ascii ''ltiges Lebenslauf-Format: '' @ mimetype cv
                 @ ascii ''. Nur PDF oder DOCX erlaubt.''), [])
        else
          let cv_text = (if mimetype cv = pdf_mime then api_extract_text_from_pdf cv
                         else api_extract_text_from_docx cv)
          in
          if mimetype job \<noteq> pdf_mime
          then (Json_error 400
                  (ascii ''Ung'' @ [252] @ ascii ''ltiges Stellenprofil-Format: '' @ mimetype job
                   @ ascii ''. Nur PDF erlaubt.''), [])
          else
            let job_text = api_extract_text_from_pdf job;
                tone = (case tone_field req of None \<Rightarrow> ascii ''Professionell'' | Some t \<Rightarrow> t)
            in
            if py_in fehler cv_text then (Json_error 400 (cv_failed @ cv_text), [])
            else if py_in fehler job_text then (Json_error 400 (job_failed @ job_text), [])
            else if \<not> list_all truthy
                        [name_field req, company_field req, strengths_field req,
                         weaknesses_field req]
            then (Json_error 400
                    (ascii ''Alle Textfelder m'' @ [252] @ ascii ''ssen ausgef'' @ [252]
                     @ ascii ''llt sein.''), [])
            else if \<not> api_is_valid_input (the (strengths_field req))
                    \<or> \<not> api_is_valid_input (the (weaknesses_field req))
            then (Json_error 400
                    (ascii ''St'' @ [228] @ ascii ''rken und Schw'' @ [228] @ ascii ''chen m''
                     @ [252] @ ascii ''ssen sinnvolle Eingaben sein.''), [])
            else
              (case api_generate_cover_letter E cv_text job_text
                      (the (strengths_field req)) (the (weaknesses_field req))
                      (the (name_field req)) (the (company_field req)) tone of
                 (Raises e, calls) \<Rightarrow> (Json_error 500 e, calls)
               | (Returns cover_letter, calls) \<Rightarrow>
                   if py_in fehler cover_letter then (Json_error 500 cover_letter, calls)
                   else
                     (case api_extract_keywords_call E cv_text of
                        Raises e \<Rightarrow> (Json_error 500 e, calls @ [Extract_keywords cv_text])
                      | Returns cv_keywords \<Rightarrow>
                     (case api_extract_keywords_call E job_text of
                        Raises e \<Rightarrow>
                          (Json_error 500 e,
                           calls @ [Extract_keywords cv_text, Extract_keywords job_text])
                      | Returns job_keywords \<Rightarrow>
                          (Json_letter cover_letter cv_keywords job_keywords,
                           calls @ [Extract_keywords cv_text, Extract_keywords job_text]))))))"

section \<open>Document export\<close>

text \<open>
  The body of the exported document, block by block. \<open>Document()\<close> starts with an empty
  body; \<open>add_heading\<close> and \<open>add_paragraph\<close> append one block each.
\<close>

datatype block = Heading nat ustr | Paragraph ustr

text \<open>
  \<open>text.split("\n\n")\<close>: the separator is searched from the left, and the search
  goes on behind each occurrence found. \<open>cur\<close> holds the current piece, reversed.
\<close>

fun split_acc :: "ustr \<Rightarrow> ustr \<Rightarrow> ustr list" where
  "split_acc cur [] = [rev cur]"
| "split_acc cur [c] = [rev (c # cur)]"
| "split_acc cur (c # d # cs) =
     (if c = 10 \<and> d = 10 then rev cur # split_acc [] cs
      else split_acc (c # cur) (d # cs))"

definition split_blank_lines :: "ustr \<Rightarrow> ustr list" where
  "split_blank_lines text = split_acc [] text"

definition heading_title :: ustr where
  "heading_title = ascii ''Motivationsschreiben''"

definition save_cover_letter :: "ustr \<Rightarrow> block list" where
  "save_cover_letter text =
     Heading 1 heading_title # map (\<lambda>paragraph. Paragraph (py_strip paragraph)) (split_blank_lines text)"

text \<open>
  The endpoint \<open>/generate_docx\<close>, given the \<open>cover_letter\<close> entry of the JSON body:
  status 400 without a letter, otherwise the document sent as a file.
\<close>

datatype docx_response = Docx_error nat ustr | Docx_file "block list"

definition generate_docx :: "ustr option \<Rightarrow> docx_response" where
  "generate_docx cover_letter =
     (if \<not> truthy cover_letter
      then Docx_error 400 (ascii ''Kein Motivationsschreiben angegeben.'')
      else Docx_file
             (Heading 1 heading_title
              # map (\<lambda>paragraph. Paragraph (py_strip paragraph)) (split_blank_lines (the cover_letter))))"

section \<open>Sample inputs\<close>

text \<open>
  Concrete collaborators and inputs at which the theorems below are evaluated: a case
  mapping for ASCII and Latin-1 letters, a tagger with a fixed answer that refuses a text
  of more than a million characters, and a service that always answers with the same
  text.
\<close>

definition lower_latin1 :: "ustr \<Rightarrow> ustr" where
  "lower_latin1 s =
     map (\<lambda>c. if (65 \<le> c \<and> c \<le> 90) \<or> (192 \<le> c \<and> c \<le> 222 \<and> c \<noteq> 215) then c + 32 else c) s"

definition noun :: "ustr \<Rightarrow> token" where
  "noun w = \<lparr>tok_text = w, pos = ''NOUN'', is_stop = False\<rparr>"

definition length_limit :: "ustr \<Rightarrow> ustr option" where
  "length_limit text =
     (if 1000000 < length text then Some (ascii ''Text exceeds maximum of 1000000'') else None)"

definition fixed_env :: "token list \<Rightarrow> env" where
  "fixed_env toks =
     \<lparr>str_lower = lower_latin1, nlp = (\<lambda>_. toks), nlp_raises = length_limit,
      chat_create = (\<lambda>_ _. Returns (ascii ''Sehr geehrte Damen und Herren''))\<rparr>"

definition one_priority_noun :: "token list" where
  "one_priority_noun = [noun (ascii ''Kundenberatung'')]"

definition six_priority_nouns :: "token list" where
  "six_priority_nouns =
     map noun [ascii ''Kundenberatung'', ascii ''Finanzwesen'', ascii ''Bankkauffrau'',
       ascii ''Bankkaufmann'', ascii ''Kundenmanagement'', ascii ''Finanzprodukte'']"

definition mixed_tokens :: "token list" where
  "mixed_tokens =
     [noun (ascii ''Team''), noun (ascii ''Beratung''), noun (ascii ''Finanzwesen''),
      noun (ascii ''Adresse''), noun (ascii ''beratung''),
      \<lparr>tok_text = ascii ''und'', pos = ''CCONJ'', is_stop = True\<rparr>,
      \<lparr>tok_text = ascii ''arbeiten'', pos = ''VERB'', is_stop = False\<rparr>]"

definition text_pdf :: "ustr \<Rightarrow> upload" where
  "text_pdf t =
     \<lparr>mimetype = pdf_mime, pdf_view = Returns [Returns (Some t)],
      docx_view = Raises (ascii ''File is not a zip file'')\<rparr>"

definition blank_pdf :: upload where
  "blank_pdf =
     \<lparr>mimetype = pdf_mime, pdf_view = Returns [Returns None, Returns (Some [32, 10])],
      docx_view = Raises (ascii ''File is not a zip file'')\<rparr>"

definition docx_upload :: "ustr list \<Rightarrow> upload" where
  "docx_upload paragraphs =
     \<lparr>mimetype = docx_mime, pdf_view = Raises (ascii ''No /Root object! - Is this really a PDF?''),
      docx_view = Returns paragraphs\<rparr>"

definition form_request :: "upload \<Rightarrow> upload \<Rightarrow> request" where
  "form_request cv job =
     \<lparr>cv_file = Some cv, job_file = Some job,
      strengths_field = Some (ascii ''Teamarbeit und Ausdauer''),
      weaknesses_field = Some (ascii ''Perfektionismus''),
      name_field = Some (ascii ''Max Mustermann''),
      company_field = Some (ascii ''Beispiel GmbH''),
      tone_field = None\<rparr>"

definition job_posting :: ustr where
  "job_posting = ascii ''Wir suchen Verst'' @ [228] @ ascii ''rkung f'' @ [252] @ ascii ''r die Kundenberatung''"

definition fehleranalyse_cv :: ustr where
  "fehleranalyse_cv = ascii ''Lebenslauf: Erfahrung in Fehleranalyse und Kundenberatung''"

definition letter_opening :: ustr where
  "letter_opening = ascii ''Guten Tag,'' @ [10]"

definition letter_closing :: ustr where
  "letter_closing = [32] @ ascii ''Ihr Max'' @ [32]"

definition cv_tokens :: "token list" where
  "cv_tokens =
     [noun (ascii ''Lebenslauf''), noun (ascii ''Erfahrung''),
      \<lparr>tok_text = ascii ''in'', pos = ''ADP'', is_stop = True\<rparr>,
      noun (ascii ''Fehleranalyse''),
      \<lparr>tok_text = ascii ''und'', pos = ''CCONJ'', is_stop = True\<rparr>,
      noun (ascii ''Kundenberatung'')]"

definition job_tokens :: "token list" where
  "job_tokens =
     [\<lparr>tok_text = ascii ''Wir'', pos = ''PRON'', is_stop = True\<rparr>,
      \<lparr>tok_text = ascii ''suchen'', pos = ''VERB'', is_stop = False\<rparr>,
      noun (ascii ''Verst'' @ [228] @ ascii ''rkung''),
      \<lparr>tok_text = ascii ''f'' @ [252] @ ascii ''r'', pos = ''ADP'', is_stop = True\<rparr>,
      \<lparr>tok_text = ascii ''die'', pos = ''DET'', is_stop = True\<rparr>,
      noun (ascii ''Kundenberatung'')]"

definition sample_tagger :: "ustr \<Rightarrow> token list" where
  "sample_tagger text = (if text = job_posting then job_tokens else cv_tokens)"

definition sample_env :: env where
  "sample_env =
     \<lparr>str_lower = lower_latin1, nlp = sample_tagger, nlp_raises = length_limit,
      chat_create = (\<lambda>_ _. Returns (ascii ''Sehr geehrte Damen und Herren''))\<rparr>"

text \<open>
  The prompts Python builds from the two templates for the sample resume and job posting,
  character by character.
\<close>

definition sample_prompt_api :: ustr where
  "sample_prompt_api =
     [10] @ ascii ''    Erstelle ein professionelles Motivationsschreiben auf De''
     @ ascii ''utsch f'' @ [252]
     @ ascii ''r Max Mustermann, der/die sich bei Beispiel GmbH auf eine Po''
     @ ascii ''sition als Bankkauffrau/-mann bewirbt. Verwende die folgende''
     @ ascii ''n Informationen:'' @ [10, 10]
     @ ascii ''    **Lebenslauf (Auszug)**: Lebenslauf: Erfahrung in Fehler''
     @ ascii ''analyse und Kundenberatung'' @ [10] @ ascii ''    **Wichtige Schl'' @ [252]
     @ ascii ''sselw'' @ [246]
     @ ascii ''rter aus dem Lebenslauf**: kundenberatung, lebenslauf, erfah''
     @ ascii ''rung, fehleranalyse, kundenberatung'' @ [10]
     @ ascii ''    **Stellenprofil (Auszug)**: Wir suchen Verst'' @ [228] @ ascii ''rkung f''
     @ [252] @ ascii ''r die Kundenberatung'' @ [10] @ ascii ''    **Wichtige Schl'' @ [252]
     @ ascii ''sselw'' @ [246]
     @ ascii ''rter aus dem Stellenprofil**: kundenberatung, suchen, verst'' @ [228]
     @ ascii ''rkung, kundenberatung'' @ [10] @ ascii ''    **St'' @ [228]
     @ ascii ''rken**: Teamarbeit und Ausdauer'' @ [10] @ ascii ''    **Schw'' @ [228]
     @ ascii ''chen**: Perfektionismus'' @ [10, 10] @ ascii ''    Das Schreiben soll:'' @ [10]
     @ ascii ''    - H'' @ [246] @ ascii ''flich und professionell sein.'' @ [10]
     @ ascii ''    - Die Qualifikationen des Bewerbers mit den Anforderunge''
     @ ascii ''n der Stelle verkn'' @ [252] @ ascii ''pfen.'' @ [10] @ ascii ''    - St'' @ [228]
     @ ascii ''rken hervorheben und Schw'' @ [228] @ ascii ''chen positiv darstellen.'' @ [10]
     @ ascii ''    - Maximal 400 W'' @ [246] @ ascii ''rter lang sein.'' @ [10]
     @ ascii ''    - Mit einer h'' @ [246] @ ascii ''flichen Schlussformel enden.'' @ [10]
     @ ascii ''    ''"

definition sample_prompt_app :: ustr where
  "sample_prompt_app =
     [10] @ ascii ''    Erstelle ein professionelles, fl'' @ [252]
     @ ascii ''ssiges und individuelles Motivationsschreiben auf Deutsch f'' @ [252]
     @ ascii ''r Max Mustermann, der/die sich bei Beispiel GmbH auf eine Po''
     @ ascii ''sition als Bankkauffrau/-mann bewirbt. Verwende die folgende''
     @ ascii ''n Informationen:'' @ [10, 10]
     @ ascii ''    **Lebenslauf (Auszug)**: Lebenslauf: Erfahrung in Fehler''
     @ ascii ''analyse und Kundenberatung'' @ [10] @ ascii ''    **Wichtige Schl'' @ [252]
     @ ascii ''sselw'' @ [246]
     @ ascii ''rter aus dem Lebenslauf**: kundenberatung, lebenslauf, erfah''
     @ ascii ''rung, fehleranalyse, kundenberatung'' @ [10]
     @ ascii ''    **Stellenprofil (Auszug)**: Wir suchen Verst'' @ [228] @ ascii ''rkung f''
     @ [252] @ ascii ''r die Kundenberatung'' @ [10] @ ascii ''    **Wichtige Schl'' @ [252]
     @ ascii ''sselw'' @ [246]
     @ ascii ''rter aus dem Stellenprofil**: kundenberatung, suchen, verst'' @ [228]
     @ ascii ''rkung, kundenberatung'' @ [10] @ ascii ''    **St'' @ [228]
     @ ascii ''rken**: Teamarbeit und Ausdauer'' @ [10] @ ascii ''    **Schw'' @ [228]
     @ ascii ''chen**: Perfektionismus'' @ [10, 10] @ ascii ''    Das Schreiben soll:'' @ [10]
     @ ascii ''    - H'' @ [246] @ ascii ''flich und professionell sein.'' @ [10]
     @ ascii ''    - Die Qualifikationen des Bewerbers mit den Anforderunge''
     @ ascii ''n der Stelle verkn'' @ [252] @ ascii ''pfen.'' @ [10] @ ascii ''    - St'' @ [228]
     @ ascii ''rken hervorheben und Schw'' @ [228] @ ascii ''chen positiv darstellen.'' @ [10]
     @ ascii ''    - Maximal 400 W'' @ [246] @ ascii ''rter lang sein.'' @ [10]
     @ ascii ''    - Mit einer h'' @ [246] @ ascii ''flichen Schlussformel enden.'' @ [10]
     @ ascii ''    ''"

section \<open>Properties of the input validator\<close>

lemma re_search_alpha3_run:
  "list_all alpha_class run \<Longrightarrow> 3 \<le> length run \<Longrightarrow> re_search_alpha3 (pre @ run @ post)"
proof (induction pre)
  case Nil
  then obtain c cs where run: "run = c # cs"
    by (cases run) auto
  have "takeWhile alpha_class (run @ post) = run @ takeWhile alpha_class post"
    using Nil.prems(1) by (simp add: list_all_iff)
  then have "3 \<le> length (takeWhile alpha_class (run @ post))"
    using Nil.prems(2) by simp
  then show ?case
    by (simp add: run)
next
  case (Cons a pre)
  then show ?case by simp
qed

lemma re_search_alpha3_has_run: "re_search_alpha3 s \<Longrightarrow> has_alpha_run s"
proof (induction s)
  case Nil
  then show ?case by simp
next
  case (Cons c cs)
  show ?case
  proof (cases "3 \<le> length (takeWhile alpha_class (c # cs))")
    case True
    have "c # cs = [] @ takeWhile alpha_class (c # cs) @ dropWhile alpha_class (c # cs)"
      by simp
    moreover have "list_all alpha_class (takeWhile alpha_class (c # cs))"
      unfolding list_all_iff by (metis set_takeWhileD)
    ultimately show ?thesis
      unfolding has_alpha_run_def using True by blast
  next
    case False
    with Cons.prems have "re_search_alpha3 cs" by simp
    then have "has_alpha_run cs" by (rule Cons.IH)
    then obtain pre run post where
      "cs = pre @ run @ post" "3 \<le> length run" "list_all alpha_class run"
      unfolding has_alpha_run_def by blast
    then have "c # cs = (c # pre) @ run @ post \<and> 3 \<le> length run \<and> list_all alpha_class run"
      by simp
    then show ?thesis
      unfolding has_alpha_run_def by blast
  qed
qed

lemma re_search_alpha3_iff: "re_search_alpha3 text = has_alpha_run text"
  using re_search_alpha3_has_run re_search_alpha3_run
  unfolding has_alpha_run_def by blast

text \<open>
  Claim C3. \<open>is_valid_input(text)\<close> is true exactly when the text has at least 10
  characters and contains a run of at least 3 consecutive letters of the class
  (ASCII letters, the German umlauts and sharp s); it is false on the empty string and on
  \<open>1234567890\<close>, and true on the word Teamfaehigkeit written with a-umlaut.
\<close>

theorem is_valid_input_iff:
  "api_is_valid_input text = (10 \<le> length text \<and> has_alpha_run text)
   \<and> app_is_valid_input text = (10 \<le> length text \<and> has_alpha_run text)
   \<and> \<not> api_is_valid_input []
   \<and> \<not> api_is_valid_input (ascii ''1234567890'')
   \<and> api_is_valid_input teamfaehigkeit"
proof -
  have "api_is_valid_input text = (10 \<le> length text \<and> has_alpha_run text)"
    by (simp add: api_is_valid_input_def re_search_alpha3_iff)
  moreover have "app_is_valid_input text = (10 \<le> length text \<and> has_alpha_run text)"
    by (simp add: app_is_valid_input_def re_search_alpha3_iff)
  moreover have "\<not> api_is_valid_input []"
    by (simp add: api_is_valid_input_def)
  moreover have "\<not> api_is_valid_input (ascii ''1234567890'')"
    by (simp add: api_is_valid_input_def ascii_def alpha_class_def)
  moreover have "api_is_valid_input teamfaehigkeit"
    by (simp add: api_is_valid_input_def teamfaehigkeit_def ascii_def alpha_class_def)
  ultimately show ?thesis by blast
qed

section \<open>Properties of the keyword extractor\<close>

lemma set_first_occurrences: "set (first_occurrences xs) = set xs"
  by (induction xs rule: first_occurrences.induct) auto

lemma distinct_first_occurrences: "distinct (first_occurrences xs)"
  by (induction xs rule: first_occurrences.induct) (auto simp: set_first_occurrences)

lemma first_occurrences_snoc:
  "first_occurrences (xs @ [w]) = first_occurrences xs @ (if w \<in> set xs then [] else [w])"
  by (induction xs rule: first_occurrences.induct) auto

lemma count_element_tabulated:
  "distinct ks \<Longrightarrow>
   count_element (map (\<lambda>k. (k, f k)) ks) w =
     (if w \<in> set ks then map (\<lambda>k. (k, if k = w then f k + 1 else f k)) ks
      else map (\<lambda>k. (k, f k)) ks @ [(w, 1)])"
  by (induction ks) auto

lemma Counter_snoc: "Counter (ws @ [w]) = count_element (Counter ws) w"
  by (simp add: Counter_def)

lemma Counter_tabulated:
  "Counter ws = map (\<lambda>w. (w, count_list ws w)) (first_occurrences ws)"
proof (induction ws rule: rev_induct)
  case Nil
  then show ?case by (simp add: Counter_def)
next
  case (snoc w ws)
  show ?case
  proof (cases "w \<in> set ws")
    case True
    then show ?thesis
      by (simp add: Counter_snoc snoc.IH count_element_tabulated
          distinct_first_occurrences set_first_occurrences first_occurrences_snoc)
  next
    case False
    then show ?thesis
      by (auto simp add: Counter_snoc snoc.IH count_element_tabulated
          distinct_first_occurrences set_first_occurrences first_occurrences_snoc)
  qed
qed

lemma insort_key_tabulated:
  "insort_key (\<lambda>(w, k). - int k) (x, c x) (map (\<lambda>w. (w, c w)) xs) =
   map (\<lambda>w. (w, c w)) (insort_key (\<lambda>w. - int (c w)) x xs)"
  by (induction xs) auto

lemma sort_key_tabulated:
  "sort_key (\<lambda>(w, k). - int k) (map (\<lambda>w. (w, c w)) xs) =
   map (\<lambda>w. (w, c w)) (sort_key (\<lambda>w. - int (c w)) xs)"
  by (induction xs) (auto simp: insort_key_tabulated)

lemma most_common_Counter:
  "map fst (most_common n (Counter ws)) =
     (if n \<le> 0 then [] else take (nat n) (frequency_ranking ws))"
  by (simp add: most_common_def Counter_tabulated sort_key_tabulated frequency_ranking_def
      take_map comp_def)

lemma fill_eq:
  "slice_to (map fst (most_common (5 - int p) (Counter ws))) (5 - int p) =
   take (5 - p) (frequency_ranking ws)"
proof (cases "p < 5")
  case True
  then have "nat (5 - int p) = 5 - p" by simp
  with True show ?thesis
    by (simp add: most_common_Counter slice_to_def)
next
  case False
  then show ?thesis
    by (simp add: most_common_Counter slice_to_def)
qed

lemma keywords_candidates:
  "map (\<lambda>t. str_lower E (tok_text t))
     (filter (\<lambda>t. pos t \<in> set [''NOUN'', ''ADJ'', ''VERB'']
                  \<and> 3 < length (tok_text t)
                  \<and> \<not> is_stop t
                  \<and> str_lower E (tok_text t) \<notin> set api_blacklisted_terms) (nlp E text))
   = candidates E text"
  unfolding candidates_def
  by (rule arg_cong [where f = "map _"], rule filter_cong) auto

lemma app_terms_api:
  "app_blacklisted_terms = api_blacklisted_terms" "app_priority_terms = api_priority_terms"
  by (simp_all add: app_blacklisted_terms_def api_blacklisted_terms_def
      app_priority_terms_def api_priority_terms_def)

lemma app_extract_keywords_api: "app_extract_keywords E text = api_extract_keywords E text"
  by (simp add: app_extract_keywords_def api_extract_keywords_def app_terms_api)

lemma api_extract_keywords_parts:
  "api_extract_keywords E text =
     priority_part (candidates E text)
     @ take (5 - length (priority_part (candidates E text)))
         (frequency_ranking (candidates E text))"
  unfolding api_extract_keywords_def Let_def keywords_candidates fill_eq priority_part_def
  by (rule refl)

text \<open>
  Claim C2. The output of \<open>extract_keywords\<close> is exactly the priority terms that occur
  among the candidates, in the order of the priority list (\<open>p\<close> of them), followed by
  the top \<open>5 - p\<close> candidates by descending frequency, ties in order of first
  occurrence, with no priority term taken out of the pool. Both copies of the function
  compute this list.
\<close>

theorem extract_keywords_refines_spec:
  "api_extract_keywords E text = spec_keywords E text
   \<and> app_extract_keywords E text = spec_keywords E text"
  by (simp add: app_extract_keywords_api api_extract_keywords_parts spec_keywords_def Let_def)

theorem extract_keywords_refines_spec_witness:
  "spec_keywords (fixed_env mixed_tokens) (ascii ''Team Beratung Finanzwesen Adresse beratung und arbeiten'')
   = [ascii ''finanzwesen'', ascii ''beratung'', ascii ''team'', ascii ''finanzwesen'',
      ascii ''arbeiten'']"
proof -
  have "api_extract_keywords (fixed_env mixed_tokens)
          (ascii ''Team Beratung Finanzwesen Adresse beratung und arbeiten'')
        = [ascii ''finanzwesen'', ascii ''beratung'', ascii ''team'', ascii ''finanzwesen'',
           ascii ''arbeiten'']"
    by code_simp
  then show ?thesis
    using extract_keywords_refines_spec
      [of "fixed_env mixed_tokens" "ascii ''Team Beratung Finanzwesen Adresse beratung und arbeiten''"]
    by simp
qed

lemma lower_latin1_idem: "lower_latin1 (lower_latin1 s) = lower_latin1 s"
  by (induction s) (auto simp: lower_latin1_def)

lemma candidates_entry:
  "e \<in> set (candidates E text) \<Longrightarrow>
   (\<exists>t. t \<in> set (nlp E text) \<and> e = str_lower E (tok_text t)) \<and> e \<notin> set api_blacklisted_terms"
  unfolding candidates_def by auto

lemma set_api_extract_keywords:
  "set (api_extract_keywords E text) \<subseteq> set (candidates E text)"
proof -
  have "set (take n (frequency_ranking ws)) \<subseteq> set ws" for n and ws :: "ustr list"
    using set_take_subset [of n "frequency_ranking ws"]
    by (simp add: frequency_ranking_def set_first_occurrences)
  then show ?thesis
    by (auto simp: api_extract_keywords_parts priority_part_def)
qed

lemma distinct_api_priority_terms: "distinct api_priority_terms"
  by (simp add: api_priority_terms_def ascii_def)

lemma distinct_priority_part: "distinct (priority_part ws)"
  by (simp add: priority_part_def distinct_api_priority_terms)

lemma distinct_frequency_ranking: "distinct (frequency_ranking ws)"
  by (simp add: frequency_ranking_def distinct_first_occurrences)

text \<open>
  Claim C1, as amended. Every entry of the list \<open>extract_keywords\<close> returns is the
  lowercased surface form of a token of the input (so it is its own lowercase form, the
  case mapping being idempotent) and is not on the blacklist. The list has at most 5
  entries whenever at most 5 priority terms occur among the candidates. It starts with
  the priority terms found, without repetition, and the rest of the list has no
  repetition either; a priority term can stand once in each part.
\<close>

theorem extract_keywords_entries:
  "(\<forall>e \<in> set (api_extract_keywords E text).
      (\<exists>t. t \<in> set (nlp E text) \<and> e = str_lower E (tok_text t))
      \<and> e \<notin> set api_blacklisted_terms
      \<and> ((\<forall>s. str_lower E (str_lower E s) = str_lower E s) \<longrightarrow> str_lower E e = e))
   \<and> (length (priority_part (candidates E text)) \<le> 5 \<longrightarrow>
        length (api_extract_keywords E text) \<le> 5)
   \<and> take (length (priority_part (candidates E text))) (api_extract_keywords E text)
       = priority_part (candidates E text)
   \<and> distinct (priority_part (candidates E text))
   \<and> distinct (drop (length (priority_part (candidates E text))) (api_extract_keywords E text))"
proof -
  let ?pri = "priority_part (candidates E text)"
  let ?r = "api_extract_keywords E text"
  have parts: "?r = ?pri @ take (5 - length ?pri) (frequency_ranking (candidates E text))"
    by (rule api_extract_keywords_parts)
  have entries: "(\<exists>t. t \<in> set (nlp E text) \<and> e = str_lower E (tok_text t))
      \<and> e \<notin> set api_blacklisted_terms
      \<and> ((\<forall>s. str_lower E (str_lower E s) = str_lower E s) \<longrightarrow> str_lower E e = e)"
    if "e \<in> set ?r" for e
  proof -
    from that have "e \<in> set (candidates E text)"
      using set_api_extract_keywords by blast
    then have *: "(\<exists>t. t \<in> set (nlp E text) \<and> e = str_lower E (tok_text t))"
      and **: "e \<notin> set api_blacklisted_terms"
      using candidates_entry by blast+
    from * have "(\<forall>s. str_lower E (str_lower E s) = str_lower E s) \<longrightarrow> str_lower E e = e"
      by auto
    with * ** show ?thesis by blast
  qed
  have "length ?r
          = length ?pri + min (length (frequency_ranking (candidates E text))) (5 - length ?pri)"
    by (subst parts) simp
  then have len: "length ?pri \<le> 5 \<longrightarrow> length ?r \<le> 5"
    by linarith
  have tk: "take (length ?pri) ?r = ?pri"
    by (subst parts) simp
  have dr: "distinct (drop (length ?pri) ?r)"
    by (subst parts) (simp add: distinct_frequency_ranking)
  from entries len tk dr distinct_priority_part [of "candidates E text"]
  show ?thesis by blast
qed

theorem extract_keywords_entries_witness:
  "(\<forall>s. str_lower (fixed_env mixed_tokens) (str_lower (fixed_env mixed_tokens) s)
        = str_lower (fixed_env mixed_tokens) s)
   \<and> length (priority_part (candidates (fixed_env mixed_tokens) (ascii ''Team Beratung''))) \<le> 5
   \<and> ascii ''beratung'' \<in> set (api_extract_keywords (fixed_env mixed_tokens) (ascii ''Team Beratung''))
   \<and> str_lower (fixed_env mixed_tokens) (ascii ''beratung'') = ascii ''beratung''
   \<and> ascii ''beratung'' \<notin> set api_blacklisted_terms
   \<and> length (api_extract_keywords (fixed_env mixed_tokens) (ascii ''Team Beratung'')) \<le> 5"
proof -
  let ?E = "fixed_env mixed_tokens"
  have idem: "\<forall>s. str_lower ?E (str_lower ?E s) = str_lower ?E s"
    by (simp add: fixed_env_def lower_latin1_idem)
  have p: "length (priority_part (candidates ?E (ascii ''Team Beratung''))) \<le> 5"
    by code_simp
  have mem: "ascii ''beratung'' \<in> set (api_extract_keywords ?E (ascii ''Team Beratung''))"
    by code_simp
  from extract_keywords_entries [of ?E "ascii ''Team Beratung''"] idem p mem
  show ?thesis by blast
qed

text \<open>
  The claim as stated fails twice: a priority term that is also among the most frequent
  candidates is listed twice, and six priority terms in one text give six entries.
\<close>

theorem extract_keywords_claim_counterexample:
  "\<not> distinct (api_extract_keywords (fixed_env one_priority_noun) (ascii ''Kundenberatung''))
   \<and> \<not> length (api_extract_keywords (fixed_env six_priority_nouns)
           (ascii ''Kundenberatung Finanzwesen Bankkauffrau Bankkaufmann Kundenmanagement Finanzprodukte'')) \<le> 5"
  by code_simp

section \<open>Properties of the text extractors\<close>

lemma py_strip_Nil_iff: "py_strip s = [] \<longleftrightarrow> list_all py_isspace s"
proof -
  have "py_strip s = [] \<longleftrightarrow> (\<forall>x \<in> set (dropWhile py_isspace s). py_isspace x)"
    by (simp add: py_strip_def)
  also have "\<dots> \<longleftrightarrow> dropWhile py_isspace s = []"
  proof
    assume a: "\<forall>x \<in> set (dropWhile py_isspace s). py_isspace x"
    show "dropWhile py_isspace s = []"
    proof (rule ccontr)
      assume n: "dropWhile py_isspace s \<noteq> []"
      then have "\<not> py_isspace (hd (dropWhile py_isspace s))"
        by (rule hd_dropWhile)
      moreover have "hd (dropWhile py_isspace s) \<in> set (dropWhile py_isspace s)"
        using n by (rule hd_in_set)
      ultimately show False
        using a by blast
    qed
  next
    assume e: "dropWhile py_isspace s = []"
    show "\<forall>x \<in> set (dropWhile py_isspace s). py_isspace x"
      unfolding e by simp
  qed
  also have "\<dots> \<longleftrightarrow> list_all py_isspace s"
    by (simp add: list_all_iff)
  finally show ?thesis .
qed

lemma blank_pdf_text:
  "pdf_text blank_pdf = Returns [32, 10]" "py_strip [32, 10] = []"
  "app_extract_text_from_pdf blank_pdf = [32, 10]"
  "api_extract_text_from_pdf blank_pdf = no_text_pdf"
proof -
  show 1: "pdf_text blank_pdf = Returns [32, 10]"
    by (simp add: pdf_text_def blank_pdf_def)
  show 2: "py_strip [32, 10] = []"
    by (simp add: py_strip_Nil_iff py_isspace_def)
  from 1 show "app_extract_text_from_pdf blank_pdf = [32, 10]"
    by (simp add: app_extract_text_from_pdf_def)
  from 1 2 show "api_extract_text_from_pdf blank_pdf = no_text_pdf"
    by (simp add: api_extract_text_from_pdf_def)
qed

lemma fehleranalyse_cv_extracted:
  "pdf_text (text_pdf fehleranalyse_cv) = Returns fehleranalyse_cv"
  "py_strip fehleranalyse_cv \<noteq> []"
  "api_extract_text_from_pdf (text_pdf fehleranalyse_cv) = fehleranalyse_cv"
proof -
  show 1: "pdf_text (text_pdf fehleranalyse_cv) = Returns fehleranalyse_cv"
    by (simp add: pdf_text_def text_pdf_def)
  have "\<not> list_all py_isspace fehleranalyse_cv"
    by (simp add: fehleranalyse_cv_def ascii_def py_isspace_def)
  then show 2: "py_strip fehleranalyse_cv \<noteq> []"
    by (simp add: py_strip_Nil_iff)
  from 1 2 show "api_extract_text_from_pdf (text_pdf fehleranalyse_cv) = fehleranalyse_cv"
    by (simp add: api_extract_text_from_pdf_def)
qed

lemma api_extract_text_from_pdf_cases:
  "pdf_text file = Raises e \<Longrightarrow> api_extract_text_from_pdf file = read_error_pdf @ e"
  "pdf_text file = Returns t \<Longrightarrow> py_strip t = [] \<Longrightarrow> api_extract_text_from_pdf file = no_text_pdf"
  "pdf_text file = Returns t \<Longrightarrow> py_strip t \<noteq> [] \<Longrightarrow> api_extract_text_from_pdf file = t"
  by (simp_all add: api_extract_text_from_pdf_def)

lemma api_extract_text_from_docx_cases:
  "docx_text file = Raises e \<Longrightarrow> api_extract_text_from_docx file = read_error_docx @ e"
  "docx_text file = Returns t \<Longrightarrow> py_strip t = [] \<Longrightarrow> api_extract_text_from_docx file = no_text_docx"
  "docx_text file = Returns t \<Longrightarrow> py_strip t \<noteq> [] \<Longrightarrow> api_extract_text_from_docx file = t"
  by (simp_all add: api_extract_text_from_docx_def)

text \<open>
  Claim C4. No exception leaves an extractor of either entry point: every exception of
  the block is turned into a returned message (the lemmas above for \<open>api.py\<close>). The
  second half of the claim holds for \<open>api.py\<close> only. For a PDF whose pages give no text
  and a blank line, the extractor of \<open>app.py\<close> returns the whitespace as a success,
  where the extractor of \<open>api.py\<close> returns the no-extractable-text failure.
\<close>

theorem app_extract_text_from_pdf_blank:
  "pdf_text blank_pdf = Returns [32, 10]
   \<and> py_strip [32, 10] = []
   \<and> app_extract_text_from_pdf blank_pdf = [32, 10]
   \<and> api_extract_text_from_pdf blank_pdf = no_text_pdf"
  by (simp add: blank_pdf_text)

section \<open>The two entry points\<close>

text \<open>
  Claim C10. Given the same tagger and case mapping, \<open>extract_keywords\<close> of the
  interactive form and of the programmatic entry point return the same list for every
  text, and the two copies of \<open>is_valid_input\<close> agree on every string.
\<close>

theorem extract_keywords_entry_points_agree:
  "app_extract_keywords E text = api_extract_keywords E text
   \<and> app_is_valid_input s = api_is_valid_input s"
  by (simp add: app_extract_keywords_api app_is_valid_input_def api_is_valid_input_def)

theorem extract_keywords_entry_points_agree_witness:
  "app_extract_keywords (fixed_env mixed_tokens) (ascii ''Team Beratung'')
     = [ascii ''finanzwesen'', ascii ''beratung'', ascii ''team'', ascii ''finanzwesen'',
        ascii ''arbeiten'']
   \<and> app_is_valid_input teamfaehigkeit"
proof -
  have "api_extract_keywords (fixed_env mixed_tokens) (ascii ''Team Beratung'')
     = [ascii ''finanzwesen'', ascii ''beratung'', ascii ''team'', ascii ''finanzwesen'',
        ascii ''arbeiten'']"
    by code_simp
  moreover have "api_is_valid_input teamfaehigkeit"
    by code_simp
  ultimately show ?thesis
    using extract_keywords_entry_points_agree
      [of "fixed_env mixed_tokens" "ascii ''Team Beratung''" teamfaehigkeit]
    by simp
qed

section \<open>Properties of the letter composer\<close>

lemma failure_messages:
  "startswith fill_all_fields fehler" "startswith meaningful_inputs fehler"
  "fill_all_fields \<noteq> meaningful_inputs"
  by (simp_all add: fill_all_fields_def meaningful_inputs_def fehler_def ascii_def)

text \<open>
  Claim C5. When one of the six fields is empty, or the strengths or the weaknesses fail
  the input validator, \<open>generate_cover_letter\<close> of \<open>api.py\<close> returns a failure message
  that tells which of the two preconditions failed (both messages begin with the marker
  word), and it has made no call: no keyword extraction and no request to the generation
  service.
\<close>

theorem generate_cover_letter_preconditions:
  assumes "cv_text = [] \<or> job_text = [] \<or> strengths = [] \<or> weaknesses = [] \<or> name = []
           \<or> company = [] \<or> \<not> api_is_valid_input strengths \<or> \<not> api_is_valid_input weaknesses"
  shows "api_generate_cover_letter E cv_text job_text strengths weaknesses name company tone
         = (Returns
              (if cv_text = [] \<or> job_text = [] \<or> strengths = [] \<or> weaknesses = []
                  \<or> name = [] \<or> company = []
               then fill_all_fields else meaningful_inputs), [])
         \<and> startswith fill_all_fields fehler \<and> startswith meaningful_inputs fehler
         \<and> fill_all_fields \<noteq> meaningful_inputs"
  using assms by (auto simp: api_generate_cover_letter_def failure_messages)

theorem generate_cover_letter_preconditions_witness:
  "api_generate_cover_letter (fixed_env mixed_tokens) (ascii ''Lebenslauf'') job_posting
     (ascii ''Teamarbeit und Ausdauer'') (ascii ''abc'') (ascii ''Max Mustermann'')
     (ascii ''Beispiel GmbH'') (ascii ''Professionell'')
   = (Returns meaningful_inputs, [])"
proof -
  have "\<not> api_is_valid_input (ascii ''abc'')"
    by code_simp
  then show ?thesis
    using generate_cover_letter_preconditions
      [of "ascii ''Lebenslauf''" job_posting "ascii ''Teamarbeit und Ausdauer''" "ascii ''abc''"
          "ascii ''Max Mustermann''" "ascii ''Beispiel GmbH''" "fixed_env mixed_tokens"
          "ascii ''Professionell''"]
    by (simp add: ascii_def job_posting_def)
qed

lemma py_join_comma: "py_join (ascii '', '') ks = comma_joined ks"
proof (induction "ascii '', ''" ks rule: py_join.induct)
  case 1
  then show ?case by (simp add: comma_joined_def)
next
  case (2 p)
  then show ?case by (simp add: comma_joined_def)
next
  case (3 p q ps)
  have "ascii '', '' = [44, 32]"
    by (simp add: ascii_def)
  with 3 show ?case
    by (simp add: comma_joined_def)
qed

lemma take_1000: "take 1000 s = take (min 1000 (length s)) s"
  by (simp add: min_def)

lemma api_generate_cover_letter_calls:
  assumes "cv_text \<noteq> []" "job_text \<noteq> []" "strengths \<noteq> []" "weaknesses \<noteq> []"
    "name \<noteq> []" "company \<noteq> []"
    "api_is_valid_input strengths" "api_is_valid_input weaknesses"
  shows "snd (api_generate_cover_letter E cv_text job_text strengths weaknesses name company tone)
         = (case nlp_raises E cv_text of
              Some e \<Rightarrow> [Extract_keywords cv_text]
            | None \<Rightarrow>
            (case nlp_raises E job_text of
               Some e \<Rightarrow> [Extract_keywords cv_text, Extract_keywords job_text]
             | None \<Rightarrow>
                 [Extract_keywords cv_text, Extract_keywords job_text,
                  Chat_create system_content
                    (api_prompt_head E tone name company
                     @ prompt_body cv_text (api_extract_keywords E cv_text)
                         job_text (api_extract_keywords E job_text) strengths weaknesses)]))"
  using assms
  by (simp add: api_generate_cover_letter_def api_extract_keywords_call_def Let_def
      prompt_body_def py_join_comma take_1000 [symmetric] split: option.splits)

lemma app_generate_cover_letter_calls:
  "snd (app_generate_cover_letter E cv_text job_text strengths weaknesses name company)
   = (case nlp_raises E cv_text of
        Some e \<Rightarrow> [Extract_keywords cv_text]
      | None \<Rightarrow>
      (case nlp_raises E job_text of
         Some e \<Rightarrow> [Extract_keywords cv_text, Extract_keywords job_text]
       | None \<Rightarrow>
           [Extract_keywords cv_text, Extract_keywords job_text,
            Chat_create system_content
              (app_prompt_head name company
               @ prompt_body cv_text (app_extract_keywords E cv_text)
                   job_text (app_extract_keywords E job_text) strengths weaknesses)]))"
  by (simp add: app_generate_cover_letter_def app_extract_keywords_call_def Let_def
      prompt_body_def py_join_comma take_1000 [symmetric] split: option.splits)

text \<open>
  Claim C7. For every input that passes the preconditions, the prompt that
  \<open>generate_cover_letter\<close> builds and sends to the generation service is the opening
  sentence followed, between the fixed labels of the template, by the first
  \<open>min(1000, length)\<close> characters of \<open>cv_text\<close> and of \<open>job_text\<close> (prefixes of the texts,
  unchanged), the two lists of \<open>extract_keywords\<close> with a comma and a space between
  neighbours, and the strengths and weaknesses as given. Whenever the tagger answers for
  both texts the prompt is built and sent; when it raises, no prompt is sent. The form's
  copy builds the same body behind its own opening sentence.
\<close>

theorem generate_cover_letter_prompt:
  assumes "cv_text \<noteq> []" "job_text \<noteq> []" "strengths \<noteq> []" "weaknesses \<noteq> []"
    "name \<noteq> []" "company \<noteq> []"
    "api_is_valid_input strengths" "api_is_valid_input weaknesses"
  shows "(nlp_raises E cv_text = None \<and> nlp_raises E job_text = None \<longrightarrow>
            snd (api_generate_cover_letter E cv_text job_text strengths weaknesses name company tone)
            = [Extract_keywords cv_text, Extract_keywords job_text,
               Chat_create system_content
                 (api_prompt_head E tone name company
                  @ prompt_body cv_text (api_extract_keywords E cv_text)
                      job_text (api_extract_keywords E job_text) strengths weaknesses)]
          \<and> snd (app_generate_cover_letter E cv_text job_text strengths weaknesses name company)
            = [Extract_keywords cv_text, Extract_keywords job_text,
               Chat_create system_content
                 (app_prompt_head name company
                  @ prompt_body cv_text (app_extract_keywords E cv_text)
                      job_text (app_extract_keywords E job_text) strengths weaknesses)])
       \<and> (\<forall>s p. Chat_create s p
               \<in> set (snd (api_generate_cover_letter E cv_text job_text strengths weaknesses
                             name company tone)) \<longrightarrow>
             nlp_raises E cv_text = None \<and> nlp_raises E job_text = None
             \<and> p = api_prompt_head E tone name company
                   @ prompt_body cv_text (api_extract_keywords E cv_text)
                       job_text (api_extract_keywords E job_text) strengths weaknesses)
       \<and> (\<forall>s p. Chat_create s p
               \<in> set (snd (app_generate_cover_letter E cv_text job_text strengths weaknesses
                             name company)) \<longrightarrow>
             nlp_raises E cv_text = None \<and> nlp_raises E job_text = None
             \<and> p = app_prompt_head name company
                   @ prompt_body cv_text (app_extract_keywords E cv_text)
                       job_text (app_extract_keywords E job_text) strengths weaknesses)
       \<and> prompt_body cv_text cv_keywords job_text job_keywords strengths weaknesses
           = prompt_cv @ take (min 1000 (length cv_text)) cv_text
             @ prompt_cv_keywords @ comma_joined cv_keywords
             @ prompt_job @ take (min 1000 (length job_text)) job_text
             @ prompt_job_keywords @ comma_joined job_keywords
             @ prompt_strengths @ strengths
             @ prompt_weaknesses @ weaknesses
             @ prompt_rules
       \<and> prefix (take (min 1000 (length cv_text)) cv_text) cv_text
       \<and> length (take (min 1000 (length cv_text)) cv_text) = min 1000 (length cv_text)
       \<and> prefix (take (min 1000 (length job_text)) job_text) job_text
       \<and> length (take (min 1000 (length job_text)) job_text) = min 1000 (length job_text)"
proof -
  note api = api_generate_cover_letter_calls [OF assms, of E tone]
  note app = app_generate_cover_letter_calls [of E cv_text job_text strengths weaknesses name company]
  have sent: "nlp_raises E cv_text = None \<and> nlp_raises E job_text = None \<longrightarrow>
            snd (api_generate_cover_letter E cv_text job_text strengths weaknesses name company tone)
            = [Extract_keywords cv_text, Extract_keywords job_text,
               Chat_create system_content
                 (api_prompt_head E tone name company
                  @ prompt_body cv_text (api_extract_keywords E cv_text)
                      job_text (api_extract_keywords E job_text) strengths weaknesses)]
          \<and> snd (app_generate_cover_letter E cv_text job_text strengths weaknesses name company)
            = [Extract_keywords cv_text, Extract_keywords job_text,
               Chat_create system_content
                 (app_prompt_head name company
                  @ prompt_body cv_text (app_extract_keywords E cv_text)
                      job_text (app_extract_keywords E job_text) strengths weaknesses)]"
    by (simp add: api app)
  have only_api: "\<forall>s p. Chat_create s p
               \<in> set (snd (api_generate_cover_letter E cv_text job_text strengths weaknesses
                             name company tone)) \<longrightarrow>
             nlp_raises E cv_text = None \<and> nlp_raises E job_text = None
             \<and> p = api_prompt_head E tone name company
                   @ prompt_body cv_text (api_extract_keywords E cv_text)
                       job_text (api_extract_keywords E job_text) strengths weaknesses"
    unfolding api by (auto split: option.splits)
  have only_app: "\<forall>s p. Chat_create s p
               \<in> set (snd (app_generate_cover_letter E cv_text job_text strengths weaknesses
                             name company)) \<longrightarrow>
             nlp_raises E cv_text = None \<and> nlp_raises E job_text = None
             \<and> p = app_prompt_head name company
                   @ prompt_body cv_text (app_extract_keywords E cv_text)
                       job_text (app_extract_keywords E job_text) strengths weaknesses"
    unfolding app by (auto split: option.splits)
  have body: "prompt_body cv_text cv_keywords job_text job_keywords strengths weaknesses
           = prompt_cv @ take (min 1000 (length cv_text)) cv_text
             @ prompt_cv_keywords @ comma_joined cv_keywords
             @ prompt_job @ take (min 1000 (length job_text)) job_text
             @ prompt_job_keywords @ comma_joined job_keywords
             @ prompt_strengths @ strengths
             @ prompt_weaknesses @ weaknesses
             @ prompt_rules"
    by (simp add: prompt_body_def)
  have pre: "prefix (take n s) s" for n and s :: ustr
    by (rule take_is_prefix)
  have len: "length (take (min 1000 (length s)) s) = min 1000 (length s)" for s :: ustr
    by (simp add: min.commute)
  from sent only_api only_app body pre len show ?thesis
    by blast
qed

theorem generate_cover_letter_prompt_witness:
  "snd (api_generate_cover_letter sample_env fehleranalyse_cv job_posting
          (ascii ''Teamarbeit und Ausdauer'') (ascii ''Perfektionismus'')
          (ascii ''Max Mustermann'') (ascii ''Beispiel GmbH'') (ascii ''Professionell''))
   = [Extract_keywords fehleranalyse_cv, Extract_keywords job_posting,
      Chat_create system_content sample_prompt_api]
   \<and> snd (app_generate_cover_letter sample_env fehleranalyse_cv job_posting
          (ascii ''Teamarbeit und Ausdauer'') (ascii ''Perfektionismus'')
          (ascii ''Max Mustermann'') (ascii ''Beispiel GmbH''))
   = [Extract_keywords fehleranalyse_cv, Extract_keywords job_posting,
      Chat_create system_content sample_prompt_app]"
proof -
  have v: "api_is_valid_input (ascii ''Teamarbeit und Ausdauer'')"
    "api_is_valid_input (ascii ''Perfektionismus'')"
    by code_simp+
  have ne: "fehleranalyse_cv \<noteq> []" "job_posting \<noteq> []" "ascii ''Teamarbeit und Ausdauer'' \<noteq> []"
    "ascii ''Perfektionismus'' \<noteq> []" "ascii ''Max Mustermann'' \<noteq> []" "ascii ''Beispiel GmbH'' \<noteq> []"
    by (simp_all add: fehleranalyse_cv_def job_posting_def ascii_def)
  have answers: "nlp_raises sample_env fehleranalyse_cv = None"
    "nlp_raises sample_env job_posting = None"
    by (simp_all add: sample_env_def length_limit_def fehleranalyse_cv_def job_posting_def
        ascii_def)
  have kw: "api_extract_keywords sample_env fehleranalyse_cv
        = [ascii ''kundenberatung'', ascii ''lebenslauf'', ascii ''erfahrung'',
           ascii ''fehleranalyse'', ascii ''kundenberatung'']"
    "api_extract_keywords sample_env job_posting
        = [ascii ''kundenberatung'', ascii ''suchen'', ascii ''verst'' @ [228] @ ascii ''rkung'',
           ascii ''kundenberatung'']"
    by code_simp+
  have api: "api_prompt_head sample_env (ascii ''Professionell'') (ascii ''Max Mustermann'')
          (ascii ''Beispiel GmbH'')
        @ prompt_body fehleranalyse_cv (api_extract_keywords sample_env fehleranalyse_cv)
            job_posting (api_extract_keywords sample_env job_posting)
            (ascii ''Teamarbeit und Ausdauer'') (ascii ''Perfektionismus'')
        = sample_prompt_api"
    unfolding kw
    by (simp add: api_prompt_head_def prompt_body_def comma_joined_def sample_prompt_api_def
        prompt_at_def prompt_cv_def prompt_cv_keywords_def prompt_job_def prompt_job_keywords_def
        prompt_strengths_def prompt_weaknesses_def prompt_rules_def fehleranalyse_cv_def
        job_posting_def sample_env_def lower_latin1_def ascii_def)
  have app: "app_prompt_head (ascii ''Max Mustermann'') (ascii ''Beispiel GmbH'')
        @ prompt_body fehleranalyse_cv (app_extract_keywords sample_env fehleranalyse_cv)
            job_posting (app_extract_keywords sample_env job_posting)
            (ascii ''Teamarbeit und Ausdauer'') (ascii ''Perfektionismus'')
        = sample_prompt_app"
    unfolding kw app_extract_keywords_api
    by (simp add: app_prompt_head_def prompt_body_def comma_joined_def sample_prompt_app_def
        prompt_at_def prompt_cv_def prompt_cv_keywords_def prompt_job_def prompt_job_keywords_def
        prompt_strengths_def prompt_weaknesses_def prompt_rules_def fehleranalyse_cv_def
        job_posting_def ascii_def)
  from generate_cover_letter_prompt [OF ne v, of sample_env "ascii ''Professionell''"]
    answers api app
  show ?thesis
    by simp
qed

lemma generate_cover_letter_tagger_raises:
  assumes "cv_text \<noteq> []" "job_text \<noteq> []" "strengths \<noteq> []" "weaknesses \<noteq> []"
    "name \<noteq> []" "company \<noteq> []"
    "api_is_valid_input strengths" "api_is_valid_input weaknesses"
    "nlp_raises E cv_text = Some e"
  shows "api_generate_cover_letter E cv_text job_text strengths weaknesses name company tone
         = (Raises e, [Extract_keywords cv_text])"
    and "app_generate_cover_letter E cv_text job_text strengths weaknesses name company
         = (Raises e, [Extract_keywords cv_text])"
  using assms
  by (simp_all add: api_generate_cover_letter_def app_generate_cover_letter_def
      api_extract_keywords_call_def app_extract_keywords_call_def)

section \<open>Properties of the endpoint\<close>

lemma py_in_no_text_pdf: "py_in fehler no_text_pdf"
  by code_simp

text \<open>
  Claim C6, as amended. A request whose resume is a PDF for which the extractor returns
  the no-extractable-text failure is answered with status 400, and no call is made to
  the tagger or to the generation service. When the request also has a job file of the
  PDF media type, the message is the resume-processing error followed by that failure.
  Without a job file the message asks for one, and with a job file of another media type
  the message is the unsupported-format message naming that type.
\<close>

theorem no_text_resume_rejected:
  assumes "cv_file req = Some cv" "mimetype cv = pdf_mime"
    "api_extract_text_from_pdf cv = no_text_pdf"
  shows "(\<exists>msg. fst (api_generate_cover_letter_endpoint E req) = Json_error 400 msg)
       \<and> snd (api_generate_cover_letter_endpoint E req) = []
       \<and> (\<forall>job. job_file req = Some job \<and> mimetype job = pdf_mime \<longrightarrow>
             fst (api_generate_cover_letter_endpoint E req)
             = Json_error 400 (cv_failed @ no_text_pdf))
       \<and> (job_file req = None \<longrightarrow>
             fst (api_generate_cover_letter_endpoint E req)
             = Json_error 400 (ascii ''Bitte laden Sie ein Stellenprofil hoch.''))
       \<and> (\<forall>job. job_file req = Some job \<and> mimetype job \<noteq> pdf_mime \<longrightarrow>
             fst (api_generate_cover_letter_endpoint E req)
             = Json_error 400
                 (ascii ''Ung'' @ [252] @ ascii ''ltiges Stellenprofil-Format: '' @ mimetype job
                  @ ascii ''. Nur PDF erlaubt.''))"
  using assms py_in_no_text_pdf
  by (auto simp: api_generate_cover_letter_endpoint_def Let_def split: option.splits)

theorem no_text_resume_rejected_witness:
  "api_generate_cover_letter_endpoint (fixed_env mixed_tokens)
     (form_request blank_pdf (text_pdf job_posting))
   = (Json_error 400 (cv_failed @ no_text_pdf), [])
   \<and> fst (api_generate_cover_letter_endpoint (fixed_env mixed_tokens)
            ((form_request blank_pdf (text_pdf job_posting))\<lparr>job_file := None\<rparr>))
     = Json_error 400 (ascii ''Bitte laden Sie ein Stellenprofil hoch.'')
   \<and> fst (api_generate_cover_letter_endpoint (fixed_env mixed_tokens)
            (form_request blank_pdf (docx_upload [job_posting])))
     = Json_error 400
         (ascii ''Ung'' @ [252] @ ascii ''ltiges Stellenprofil-Format: '' @ docx_mime
          @ ascii ''. Nur PDF erlaubt.'')"
proof (intro conjI)
  let ?req = "(form_request blank_pdf (text_pdf job_posting))\<lparr>job_file := None\<rparr>"
  have h: "cv_file ?req = Some blank_pdf" "mimetype blank_pdf = pdf_mime"
    "api_extract_text_from_pdf blank_pdf = no_text_pdf"
    by (simp_all add: form_request_def blank_pdf_text) (simp add: blank_pdf_def)
  have "job_file ?req = None"
    by simp
  with no_text_resume_rejected [OF h, of "fixed_env mixed_tokens"]
  show "fst (api_generate_cover_letter_endpoint (fixed_env mixed_tokens) ?req)
     = Json_error 400 (ascii ''Bitte laden Sie ein Stellenprofil hoch.'')"
    by blast
next
  let ?req = "form_request blank_pdf (docx_upload [job_posting])"
  have h: "cv_file ?req = Some blank_pdf" "mimetype blank_pdf = pdf_mime"
    "api_extract_text_from_pdf blank_pdf = no_text_pdf"
    by (simp_all add: form_request_def blank_pdf_text) (simp add: blank_pdf_def)
  have j: "job_file ?req = Some (docx_upload [job_posting])"
    "mimetype (docx_upload [job_posting]) = docx_mime" "docx_mime \<noteq> pdf_mime"
    by (simp_all add: form_request_def docx_upload_def docx_mime_def pdf_mime_def ascii_def)
  from no_text_resume_rejected [OF h, of "fixed_env mixed_tokens"]
  have "\<forall>job. job_file ?req = Some job \<and> mimetype job \<noteq> pdf_mime \<longrightarrow>
          fst (api_generate_cover_letter_endpoint (fixed_env mixed_tokens) ?req)
          = Json_error 400
              (ascii ''Ung'' @ [252] @ ascii ''ltiges Stellenprofil-Format: '' @ mimetype job
               @ ascii ''. Nur PDF erlaubt.'')"
    by blast
  with j show "fst (api_generate_cover_letter_endpoint (fixed_env mixed_tokens) ?req)
     = Json_error 400
         (ascii ''Ung'' @ [252] @ ascii ''ltiges Stellenprofil-Format: '' @ docx_mime
          @ ascii ''. Nur PDF erlaubt.'')"
    by (metis (no_types))
next
  show "api_generate_cover_letter_endpoint (fixed_env mixed_tokens)
     (form_request blank_pdf (text_pdf job_posting))
   = (Json_error 400 (cv_failed @ no_text_pdf), [])"
  proof -
    let ?req = "form_request blank_pdf (text_pdf job_posting)"
    have h: "cv_file ?req = Some blank_pdf" "mimetype blank_pdf = pdf_mime"
      "api_extract_text_from_pdf blank_pdf = no_text_pdf"
      by (simp_all add: form_request_def blank_pdf_text) (simp add: blank_pdf_def)
    have j: "job_file ?req = Some (text_pdf job_posting)"
      "mimetype (text_pdf job_posting) = pdf_mime"
      by (simp_all add: form_request_def text_pdf_def)
    from no_text_resume_rejected [OF h, of "fixed_env mixed_tokens"] j
    show ?thesis
      by (metis prod.collapse)
  qed
qed

text \<open>
  The claim as stated fails on the message: with a job file of the DOCX media type the
  request is answered with the unsupported-format message before the extracted text is
  looked at.
\<close>

theorem no_text_resume_claim_counterexample:
  "cv_file (form_request blank_pdf (docx_upload [job_posting])) = Some blank_pdf
   \<and> mimetype blank_pdf = pdf_mime
   \<and> api_extract_text_from_pdf blank_pdf = no_text_pdf
   \<and> fst (api_generate_cover_letter_endpoint (fixed_env mixed_tokens)
             (form_request blank_pdf (docx_upload [job_posting])))
       = Json_error 400
           (ascii ''Ung'' @ [252] @ ascii ''ltiges Stellenprofil-Format: '' @ docx_mime
            @ ascii ''. Nur PDF erlaubt.'')
   \<and> \<not> py_in fehler
         (ascii ''Ung'' @ [252] @ ascii ''ltiges Stellenprofil-Format: '' @ docx_mime
          @ ascii ''. Nur PDF erlaubt.'')"
  by code_simp

lemma marker_word_rejected:
  assumes "cv_file req = Some cv" "job_file req = Some job"
    "mimetype cv = pdf_mime \<or> mimetype cv = docx_mime" "mimetype job = pdf_mime"
    "cv_text = (if mimetype cv = pdf_mime then api_extract_text_from_pdf cv
                else api_extract_text_from_docx cv)"
    "py_in fehler cv_text"
  shows "api_generate_cover_letter_endpoint E req = (Json_error 400 (cv_failed @ cv_text), [])"
  using assms
  by (auto simp: api_generate_cover_letter_endpoint_def Let_def)

text \<open>
  Claim C9. The endpoint classifies by looking for the marker word in the text the
  extractor returned: whenever that text contains it, the answer is status 400 with the
  text behind the fixed prefix, and no call has been made. So a PDF whose extraction
  succeeds with non-blank text containing the word Fehleranalyse is answered like a
  failed extraction.
\<close>

theorem marker_word_in_resume:
  "(\<forall>req cv job. cv_file req = Some cv \<and> job_file req = Some job
        \<and> mimetype cv = pdf_mime \<and> mimetype job = pdf_mime
        \<and> py_in fehler (api_extract_text_from_pdf cv) \<longrightarrow>
      api_generate_cover_letter_endpoint E req
      = (Json_error 400 (cv_failed @ api_extract_text_from_pdf cv), []))
   \<and> (\<exists>req cv t. cv_file req = Some cv \<and> mimetype cv = pdf_mime
        \<and> pdf_text cv = Returns t \<and> py_strip t \<noteq> []
        \<and> api_extract_text_from_pdf cv = t
        \<and> py_in (ascii ''Fehleranalyse'') t
        \<and> api_generate_cover_letter_endpoint E req = (Json_error 400 (cv_failed @ t), []))"
proof (intro conjI allI impI)
  fix req :: request and cv job :: upload
  assume "cv_file req = Some cv \<and> job_file req = Some job
        \<and> mimetype cv = pdf_mime \<and> mimetype job = pdf_mime
        \<and> py_in fehler (api_extract_text_from_pdf cv)"
  then show "api_generate_cover_letter_endpoint E req
      = (Json_error 400 (cv_failed @ api_extract_text_from_pdf cv), [])"
    using marker_word_rejected [of req cv job "api_extract_text_from_pdf cv" E] by simp
next
  let ?cv = "text_pdf fehleranalyse_cv"
  let ?req = "form_request ?cv (text_pdf job_posting)"
  note ex = fehleranalyse_cv_extracted
  have word: "py_in (ascii ''Fehleranalyse'') fehleranalyse_cv" "py_in fehler fehleranalyse_cv"
    by code_simp+
  have f: "cv_file ?req = Some ?cv" "job_file ?req = Some (text_pdf job_posting)"
    "mimetype ?cv = pdf_mime" "mimetype (text_pdf job_posting) = pdf_mime"
    by (simp_all add: form_request_def text_pdf_def)
  have "api_generate_cover_letter_endpoint E ?req
        = (Json_error 400 (cv_failed @ fehleranalyse_cv), [])"
    using marker_word_rejected [of ?req ?cv "text_pdf job_posting" fehleranalyse_cv E] f ex word
    by simp
  with ex word f show "\<exists>req cv t. cv_file req = Some cv \<and> mimetype cv = pdf_mime
        \<and> pdf_text cv = Returns t \<and> py_strip t \<noteq> []
        \<and> api_extract_text_from_pdf cv = t
        \<and> py_in (ascii ''Fehleranalyse'') t
        \<and> api_generate_cover_letter_endpoint E req = (Json_error 400 (cv_failed @ t), [])"
    by blast
qed

theorem marker_word_in_resume_witness:
  "py_strip fehleranalyse_cv \<noteq> []
   \<and> api_extract_text_from_pdf (text_pdf fehleranalyse_cv) = fehleranalyse_cv
   \<and> api_generate_cover_letter_endpoint (fixed_env mixed_tokens)
       (form_request (text_pdf fehleranalyse_cv) (text_pdf job_posting))
     = (Json_error 400 (cv_failed @ fehleranalyse_cv), [])"
proof -
  let ?cv = "text_pdf fehleranalyse_cv"
  let ?req = "form_request ?cv (text_pdf job_posting)"
  note ex = fehleranalyse_cv_extracted(2,3)
  have word: "py_in fehler fehleranalyse_cv"
    by code_simp
  have f: "cv_file ?req = Some ?cv" "job_file ?req = Some (text_pdf job_posting)"
    "mimetype ?cv = pdf_mime" "mimetype (text_pdf job_posting) = pdf_mime"
    by (simp_all add: form_request_def text_pdf_def)
  from marker_word_in_resume [of "fixed_env mixed_tokens"]
  have "cv_file ?req = Some ?cv \<and> job_file ?req = Some (text_pdf job_posting)
        \<and> mimetype ?cv = pdf_mime \<and> mimetype (text_pdf job_posting) = pdf_mime
        \<and> py_in fehler (api_extract_text_from_pdf ?cv) \<longrightarrow>
      api_generate_cover_letter_endpoint (fixed_env mixed_tokens) ?req
      = (Json_error 400 (cv_failed @ api_extract_text_from_pdf ?cv), [])"
    by blast
  with ex word f show ?thesis by simp
qed

section \<open>Properties of the document export\<close>

lemma startswith_iff: "startswith s p \<longleftrightarrow> (\<exists>ss. s = p @ ss)"
  by (induction s p rule: startswith.induct) auto

lemma py_in_iff: "py_in sub s \<longleftrightarrow> (\<exists>ps ss. s = ps @ sub @ ss)"
proof (induction s)
  case Nil
  then show ?case by auto
next
  case (Cons c cs)
  show ?case
  proof
    assume "py_in sub (c # cs)"
    then consider "startswith (c # cs) sub" | "py_in sub cs" by auto
    then show "\<exists>ps ss. c # cs = ps @ sub @ ss"
    proof cases
      case 1
      then obtain ss where "c # cs = [] @ sub @ ss"
        by (auto simp: startswith_iff)
      then show ?thesis by blast
    next
      case 2
      then obtain ps ss where "cs = ps @ sub @ ss"
        using Cons.IH by blast
      then have "c # cs = (c # ps) @ sub @ ss" by simp
      then show ?thesis by blast
    qed
  next
    assume "\<exists>ps ss. c # cs = ps @ sub @ ss"
    then obtain ps ss where eq: "c # cs = ps @ sub @ ss" by blast
    show "py_in sub (c # cs)"
    proof (cases ps)
      case Nil
      with eq have "startswith (c # cs) sub"
        by (auto simp: startswith_iff)
      then show ?thesis by simp
    next
      case (Cons a ps')
      with eq have "cs = ps' @ sub @ ss" by simp
      then have "py_in sub cs"
        using Cons.IH by blast
      then show ?thesis by simp
    qed
  qed
qed

lemma split_acc_no_separator:
  "\<not> py_in [10, 10] s \<Longrightarrow> split_acc cur s = [rev cur @ s]"
  by (induction cur s rule: split_acc.induct) auto

lemma split_acc_at_separator:
  "\<not> py_in [10, 10] A \<Longrightarrow> A = [] \<or> last A \<noteq> 10 \<Longrightarrow>
   split_acc cur (A @ 10 # 10 # B) = (rev cur @ A) # split_acc [] B"
proof (induction A arbitrary: cur)
  case Nil
  then show ?case by simp
next
  case (Cons a A)
  have tail: "\<not> py_in [10, 10] A" "A = [] \<or> last A \<noteq> 10"
    using Cons.prems by (auto split: if_splits)
  obtain d ds where next_char: "A @ 10 # 10 # B = d # ds"
    by (cases "A @ 10 # 10 # B") auto
  have "\<not> (a = 10 \<and> d = 10)"
  proof (cases A)
    case Nil
    with Cons.prems(2) show ?thesis by simp
  next
    case (Cons a' A')
    with next_char have "d = a'" by simp
    with Cons.prems(1) Cons show ?thesis by auto
  qed
  then have "split_acc cur (a # d # ds) = split_acc (a # cur) (d # ds)"
    by auto
  also have "\<dots> = (rev (a # cur) @ A) # split_acc [] B"
    unfolding next_char [symmetric] using tail by (rule Cons.IH)
  finally show ?case
    by (simp add: next_char)
qed

lemma py_strip_leading_newline: "py_strip (10 # s) = py_strip s"
  by (simp add: py_strip_def py_isspace_def)

lemma py_strip_trailing_newline: "py_strip (s @ [10]) = py_strip s"
proof (cases "list_all py_isspace s")
  case True
  then have "list_all py_isspace (s @ [10])"
    by (simp add: py_isspace_def)
  with True show ?thesis
    by (metis py_strip_Nil_iff)
next
  case False
  then obtain x where "x \<in> set s" "\<not> py_isspace x"
    by (auto simp: list_all_iff)
  then have "dropWhile py_isspace (s @ [10]) = dropWhile py_isspace s @ [10]"
    by (rule dropWhile_append1)
  then show ?thesis
    by (simp add: py_strip_def py_isspace_def)
qed

lemma split_two_paragraphs:
  assumes "\<not> py_in [10, 10] A" "\<not> py_in [10, 10] B"
    "\<not> (A \<noteq> [] \<and> last A = 10 \<and> B \<noteq> [] \<and> hd B = 10)"
  shows "map py_strip (split_blank_lines (A @ [10, 10] @ B)) = [py_strip A, py_strip B]"
proof (cases "A = [] \<or> last A \<noteq> 10")
  case True
  with assms(1) have "split_acc [] (A @ 10 # 10 # B) = A # split_acc [] B"
    using split_acc_at_separator [of A "[]" B] by simp
  then show ?thesis
    using assms(2) by (simp add: split_blank_lines_def split_acc_no_separator)
next
  case False
  then have A: "A = butlast A @ [10]" "A \<noteq> []"
    using append_butlast_last_id [of A] by auto
  have front: "\<not> py_in [10, 10] (butlast A)"
  proof
    assume "py_in [10, 10] (butlast A)"
    then obtain ps ss where "butlast A = ps @ [10, 10] @ ss"
      unfolding py_in_iff by blast
    then have "A = ps @ [10, 10] @ (ss @ [10])"
      using A(1) by simp
    then have "py_in [10, 10] A"
      unfolding py_in_iff by blast
    with assms(1) show False ..
  qed
  have front_end: "butlast A = [] \<or> last (butlast A) \<noteq> 10"
  proof (rule ccontr)
    assume "\<not> (butlast A = [] \<or> last (butlast A) \<noteq> 10)"
    then have "butlast A = butlast (butlast A) @ [10]"
      using append_butlast_last_id [of "butlast A"] by auto
    then have "A = butlast (butlast A) @ [10, 10] @ []"
      using A(1) by (metis append.assoc append_Cons append_Nil)
    then have "py_in [10, 10] A"
      unfolding py_in_iff by blast
    with assms(1) show False ..
  qed
  have B: "B = [] \<or> hd B \<noteq> 10"
    using assms(3) False by auto
  then have behind: "\<not> py_in [10, 10] (10 # B)"
    using assms(2) by (cases B) auto
  have whole: "A @ [10, 10] @ B = butlast A @ 10 # 10 # (10 # B)"
    using A(1) by (metis append.assoc append_Cons append_Nil)
  have "split_acc [] (A @ [10, 10] @ B) = butlast A # split_acc [] (10 # B)"
    unfolding whole
    using split_acc_at_separator [OF front front_end, of "[]" "10 # B"] by simp
  also have "\<dots> = [butlast A, 10 # B]"
    using behind by (simp add: split_acc_no_separator)
  finally have "map py_strip (split_blank_lines (A @ [10, 10] @ B))
                = [py_strip (butlast A), py_strip (10 # B)]"
    by (simp add: split_blank_lines_def)
  also have "py_strip (butlast A) = py_strip A"
    using py_strip_trailing_newline [of "butlast A"] A(1) by simp
  finally show ?thesis
    by (simp add: py_strip_leading_newline)
qed

text \<open>
  Claim C8, as amended. For a letter \<open>A\<close>, blank line, \<open>B\<close>, where neither part contains a
  double newline and the parts do not meet in a longer run of newlines (\<open>A\<close> ending in
  a newline and \<open>B\<close> beginning with one), the exported document is the level-1 heading
  with the fixed title followed by exactly two paragraphs, the trimmed \<open>A\<close> and the
  trimmed \<open>B\<close>. Both exporters produce this body.
\<close>

theorem export_two_paragraphs:
  assumes "\<not> py_in [10, 10] A" "\<not> py_in [10, 10] B"
    "\<not> (A \<noteq> [] \<and> last A = 10 \<and> B \<noteq> [] \<and> hd B = 10)"
  shows "save_cover_letter (A @ [10, 10] @ B)
         = [Heading 1 heading_title, Paragraph (py_strip A), Paragraph (py_strip B)]
       \<and> generate_docx (Some (A @ [10, 10] @ B))
         = Docx_file [Heading 1 heading_title, Paragraph (py_strip A), Paragraph (py_strip B)]"
proof -
  have "map (\<lambda>paragraph. Paragraph (py_strip paragraph)) (split_blank_lines (A @ [10, 10] @ B))
        = map Paragraph (map py_strip (split_blank_lines (A @ [10, 10] @ B)))"
    by simp
  also have "\<dots> = [Paragraph (py_strip A), Paragraph (py_strip B)]"
    unfolding split_two_paragraphs [OF assms] by simp
  finally show ?thesis
    by (simp add: save_cover_letter_def generate_docx_def truthy_def)
qed

theorem export_two_paragraphs_witness:
  "save_cover_letter (letter_opening @ [10, 10] @ letter_closing)
   = [Heading 1 heading_title, Paragraph (ascii ''Guten Tag,''), Paragraph (ascii ''Ihr Max'')]"
proof -
  have h: "\<not> py_in [10, 10] letter_opening" "\<not> py_in [10, 10] letter_closing"
    "\<not> (letter_opening \<noteq> [] \<and> last letter_opening = 10
        \<and> letter_closing \<noteq> [] \<and> hd letter_closing = 10)"
    by (simp_all add: letter_opening_def letter_closing_def ascii_def)
  have "py_strip letter_opening = ascii ''Guten Tag,''"
    "py_strip letter_closing = ascii ''Ihr Max''"
    by (simp_all add: letter_opening_def letter_closing_def ascii_def py_strip_def py_isspace_def)
  with export_two_paragraphs [OF h] show ?thesis
    by simp
qed

text \<open>
  The claim as stated fails when the two parts meet in four newlines: the text
  \<open>x\<close>, four newlines, \<open>y\<close> is \<open>A\<close>, blank line, \<open>B\<close> for \<open>A\<close> the letter \<open>x\<close> with a
  newline and \<open>B\<close> a newline with the letter \<open>y\<close>, and it is exported as three
  paragraphs, the middle one empty.
\<close>

theorem export_claim_counterexample:
  "\<not> py_in [10, 10] [120, 10] \<and> \<not> py_in [10, 10] [10, 121]
   \<and> save_cover_letter ([120, 10] @ [10, 10] @ [10, 121])
     = [Heading 1 heading_title, Paragraph [120], Paragraph [], Paragraph [121]]
   \<and> save_cover_letter ([120, 10] @ [10, 10] @ [10, 121])
     \<noteq> [Heading 1 heading_title, Paragraph (py_strip [120, 10]), Paragraph (py_strip [10, 121])]"
  by (simp add: save_cover_letter_def split_blank_lines_def py_strip_def py_isspace_def)

end
